theory Spec2Isabelle
  imports Complex_Main "HOL-Library.Product_Lexorder"
begin

section \<open>Python values used by the sales-insights service\<close>

text \<open>
  A Python \<open>str\<close> is a sequence of code points. The embedding uses \<open>string\<close>, reading
  each \<open>char\<close> as one code point below 256 (Latin-1), which covers every literal of the
  source (\<open>\<iacute>\<close> is \<open>CHR 0xED\<close>, and so on).
\<close>

subsection \<open>Exceptions\<close>

text \<open>
  The exceptions the source raises or names, as values. \<open>HTTPException\<close> carries its
  status code and detail; \<open>StorageError\<close> and \<open>ProviderError\<close> stand for whatever the
  database driver and the language-model client raise (both are subclasses of Python's
  \<open>Exception\<close>, as is every constructor here).
\<close>

datatype exn =
    HTTPException nat string
  | RuntimeError string
  | ValueError string
  | TypeError string
  | NameError string
  | KeyError string
  | OverflowError string
  | StorageError string
  | ProviderError string

subsection \<open>Decimal rendering of integers\<close>

definition digit_char :: "nat \<Rightarrow> char" where
  "digit_char n = ''0123456789'' ! (n mod 10)"

fun digits_nat :: "nat \<Rightarrow> string" where
  "digits_nat n = (if n < 10 then [digit_char n] else digits_nat (n div 10) @ [digit_char n])"

declare digits_nat.simps [simp del]

text \<open>\<open>str(n)\<close> for a Python int.\<close>

definition str_int :: "int \<Rightarrow> string" where
  "str_int i = (if i < 0 then CHR ''-'' # digits_nat (nat (- i)) else digits_nat (nat i))"

text \<open>Zero padding on the left to a minimal width, as \<open>%02d\<close> and \<open>%04d\<close> do.\<close>

definition zfill :: "nat \<Rightarrow> string \<Rightarrow> string" where
  "zfill w s = replicate (w - length s) CHR ''0'' @ s"

definition is_digit :: "char \<Rightarrow> bool" where
  "is_digit c = (c \<in> set ''0123456789'')"

subsection \<open>Fixed-point rendering: the format specification \<open>.2f\<close>\<close>

text \<open>
  A \<open>NUMERIC(10, 2)\<close> column is loaded as a \<open>decimal.Decimal\<close>; a finite decimal (or a
  finite float) is modelled by its exact rational value. \<open>format(x, '.2f')\<close> rounds to
  two fractional digits, ties to even, and keeps the sign of \<open>x\<close> even when the rounded
  magnitude is zero.
\<close>

definition round_half_even :: "rat \<Rightarrow> int" where
  "round_half_even x =
     (let f = \<lfloor>x\<rfloor>; r = x - of_int f
      in if r < 1 / 2 then f
         else if 1 / 2 < r then f + 1
         else if even f then f else f + 1)"

definition format_2f :: "rat \<Rightarrow> string" where
  "format_2f x =
     (let c = nat (round_half_even (\<bar>x\<bar> * 100))
      in (if x < 0 then ''-'' else '''') @ digits_nat (c div 100) @ ''.'' @
         zfill 2 (digits_nat (c mod 100)))"

subsection \<open>Naive datetimes\<close>

text \<open>
  \<open>datetime.datetime\<close> without a time zone: the civil fields, compared field by field
  from the year down (Python compares the tuples of fields).
\<close>

record datetime =
  year :: nat
  month :: nat
  day :: nat
  hour :: nat
  minute :: nat
  second :: nat
  microsecond :: nat

definition dt_key :: "datetime \<Rightarrow> nat \<times> nat \<times> nat \<times> nat \<times> nat \<times> nat \<times> nat" where
  "dt_key d = (year d, month d, day d, hour d, minute d, second d, microsecond d)"

definition dt_le :: "datetime \<Rightarrow> datetime \<Rightarrow> bool" where
  "dt_le a b = (dt_key a \<le> dt_key b)"

definition is_leap :: "nat \<Rightarrow> bool" where
  "is_leap y = (y mod 4 = 0 \<and> (y mod 100 \<noteq> 0 \<or> y mod 400 = 0))"

definition days_in_month :: "nat \<Rightarrow> nat \<Rightarrow> nat" where
  "days_in_month y m =
     (if m = 2 \<and> is_leap y then 29
      else [31, 28, 31, 30, 31, 30, 31, 31, 30, 31, 30, 31] ! (m - 1))"

text \<open>The invariant of every \<open>datetime\<close> object Python can construct.\<close>

definition valid_datetime :: "datetime \<Rightarrow> bool" where
  "valid_datetime d =
     (1 \<le> year d \<and> year d \<le> 9999 \<and> 1 \<le> month d \<and> month d \<le> 12 \<and>
      1 \<le> day d \<and> day d \<le> days_in_month (year d) (month d) \<and>
      hour d < 24 \<and> minute d < 60 \<and> second d < 60 \<and> microsecond d < 1000000)"

text \<open>
  \<open>strftime\<close>, for the directives the source uses: \<open>%d\<close>, \<open>%m\<close>, \<open>%H\<close>, \<open>%M\<close> (two
  digits, zero padded), \<open>%Y\<close> (the year with century in decimal; the C library
  that Python calls does not pad it, so a year below 1000 has fewer than four digits)
  and \<open>%%\<close>. Any other character is copied.
\<close>

definition directive :: "char \<Rightarrow> datetime \<Rightarrow> string" where
  "directive c d =
     (if c = CHR ''d'' then zfill 2 (digits_nat (day d))
      else if c = CHR ''m'' then zfill 2 (digits_nat (month d))
      else if c = CHR ''Y'' then digits_nat (year d)
      else if c = CHR ''H'' then zfill 2 (digits_nat (hour d))
      else if c = CHR ''M'' then zfill 2 (digits_nat (minute d))
      else if c = CHR ''%'' then ''%''
      else [CHR ''%'', c])"

fun strftime :: "string \<Rightarrow> datetime \<Rightarrow> string" where
  "strftime [] d = []"
| "strftime [c] d = [c]"
| "strftime (c # e # fs) d =
     (if c = CHR ''%'' then directive e d @ strftime fs d else c # strftime (e # fs) d)"


text \<open>\<open>sep.join(items)\<close> and \<open>s.split(c)\<close> for a one-character separator.\<close>

fun str_join :: "string \<Rightarrow> string list \<Rightarrow> string" where
  "str_join sep [] = []"
| "str_join sep [x] = x"
| "str_join sep (x # y # ys) = x @ sep @ str_join sep (y # ys)"

fun split_on :: "char \<Rightarrow> string \<Rightarrow> string list" where
  "split_on c [] = [[]]"
| "split_on c (x # xs) =
     (if x = c then [] # split_on c xs
      else (case split_on c xs of [] \<Rightarrow> [[x]] | l # ls \<Rightarrow> (x # l) # ls))"

section \<open>The data model (app/models.py)\<close>

text \<open>
  The columns of \<open>Product\<close> and \<open>Sale\<close> that the service reads. A nullable column is
  an \<open>option\<close>. The bookkeeping columns \<open>created_at\<close> and \<open>updated_at\<close> and the
  \<open>Customer\<close> table are read by no function modelled here.
\<close>

record Product =
  p_id :: int
  sku :: string
  name :: string
  description :: "string option"
  category :: "string option"
  price :: rat
  stock_quantity :: int

record Sale =
  s_id :: int
  product_id :: int
  customer_id :: "int option"
  quantity :: int
  unit_price :: rat
  total_amount :: rat
  sale_date :: datetime
  payment_method :: "string option"

section \<open>The context formatter (app/services/sales_analyzer.py)\<close>

text \<open>The f-string of one row.\<close>

definition format_line :: "Sale \<Rightarrow> Product \<Rightarrow> string" where
  "format_line sale product =
     ''- '' @ name product @ '': '' @ str_int (quantity sale) @ '' unid. (R$'' @
     format_2f (total_amount sale) @ '') '' @
     ''em '' @ strftime ''%d/%m/%Y %H:%M'' (sale_date sale)"

definition format_context :: "(Sale \<times> Product) list \<Rightarrow> string" where
  "format_context sales_data =
     (if sales_data = [] then
        ''Nenhuma venda registrada no per'' @ [CHR 0xED] @ ''odo solicitado.''
      else str_join ''\<newline>'' (map (\<lambda>(sale, product). format_line sale product) sales_data))"

text \<open>
  The older copy in app/langchain_service.py: the same lines, appended one by one and
  joined, and a sentinel that names the last week.
\<close>

fun context_lines :: "(Sale \<times> Product) list \<Rightarrow> string list \<Rightarrow> string list" where
  "context_lines [] acc = acc"
| "context_lines ((sale, product) # rest) acc = context_lines rest (acc @ [format_line sale product])"

definition format_sales_context :: "(Sale \<times> Product) list \<Rightarrow> string" where
  "format_sales_context sales_data =
     (if sales_data = [] then
        ''Nenhuma venda registrada na '' @ [CHR 0xFA] @ ''ltima semana.''
      else str_join ''\<newline>'' (context_lines sales_data []))"

subsection \<open>What the specification asks of a rendered line\<close>

text \<open>
  Two and four decimal digits of a number, most significant first: the fixed-width,
  zero-padded fields of \<open>day/month/year hour:minute\<close>.
\<close>

definition two_digits :: "nat \<Rightarrow> string" where
  "two_digits n = [digit_char (n div 10), digit_char n]"

definition four_digits :: "nat \<Rightarrow> string" where
  "four_digits n = [digit_char (n div 1000), digit_char (n div 100), digit_char (n div 10), digit_char n]"

text \<open>The sixteen characters \<open>dd/mm/yyyy HH:MM\<close>, every field of fixed width.\<close>

definition fixed_width_timestamp :: "datetime \<Rightarrow> string" where
  "fixed_width_timestamp d =
     two_digits (day d) @ ''/'' @ two_digits (month d) @ ''/'' @ four_digits (year d) @
     '' '' @ two_digits (hour d) @ '':'' @ two_digits (minute d)"

text \<open>The same with the year in plain decimal, as long as it needs.\<close>

definition timestamp_text :: "datetime \<Rightarrow> string" where
  "timestamp_text d =
     two_digits (day d) @ ''/'' @ two_digits (month d) @ ''/'' @ digits_nat (year d) @
     '' '' @ two_digits (hour d) @ '':'' @ two_digits (minute d)"

text \<open>The number of newline characters in a text.\<close>

definition newlines :: "string \<Rightarrow> nat" where
  "newlines s = length (filter (\<lambda>c. c = CHR ''\<newline>'') s)"

text \<open>
  A number text with exactly two fractional digits: an optional sign, at least one
  digit, a point, two digits.
\<close>

definition two_fraction_digits :: "string \<Rightarrow> bool" where
  "two_fraction_digits s =
     (let t = (case s of [] \<Rightarrow> [] | c # cs \<Rightarrow> if c = CHR ''-'' then cs else s);
          ip = takeWhile is_digit t;
          fr = dropWhile is_digit t
      in ip \<noteq> [] \<and> length fr = 3 \<and> fr ! 0 = CHR ''.'' \<and> is_digit (fr ! 1) \<and> is_digit (fr ! 2))"

definition row_text :: "Sale \<times> Product \<Rightarrow> string" where
  "row_text r =
     (case r of (sale, product) \<Rightarrow>
        ''- '' @ name product @ '': '' @ str_int (quantity sale) @ '' unid. (R$'' @
        format_2f (total_amount sale) @ '') em '' @ timestamp_text (sale_date sale))"

text \<open>The four fields of a row that the formatter reads.\<close>

definition row_view :: "Sale \<times> Product \<Rightarrow> string \<times> int \<times> rat \<times> datetime" where
  "row_view r = (name (snd r), quantity (fst r), total_amount (fst r), sale_date (fst r))"

subsection \<open>Date arithmetic: \<open>datetime.now() - timedelta(days=days)\<close>\<close>

text \<open>
  The proleptic Gregorian ordinal of a date (day 1 is 0001-01-01) and its inverse, as
  Python's \<open>datetime\<close> module computes them.
\<close>

definition days_before_year :: "nat \<Rightarrow> nat" where
  "days_before_year y = (let p = y - 1 in p * 365 + p div 4 - p div 100 + p div 400)"

definition days_before_month :: "nat \<Rightarrow> nat \<Rightarrow> nat" where
  "days_before_month y m =
     [0, 31, 59, 90, 120, 151, 181, 212, 243, 273, 304, 334] ! (m - 1) +
     (if 2 < m \<and> is_leap y then 1 else 0)"

definition ymd2ord :: "nat \<Rightarrow> nat \<Rightarrow> nat \<Rightarrow> nat" where
  "ymd2ord y m d = days_before_year y + days_before_month y m + d"

definition ord2ymd :: "nat \<Rightarrow> nat \<times> nat \<times> nat" where
  "ord2ymd ordinal =
     (let n = ordinal - 1;
          n400 = n div 146097; r400 = n mod 146097;
          n100 = r400 div 36524; r100 = r400 mod 36524;
          n4 = r100 div 1461; r4 = r100 mod 1461;
          n1 = r4 div 365; r1 = r4 mod 365;
          y = n400 * 400 + 1 + n100 * 100 + n4 * 4 + n1
      in if n1 = 4 \<or> n100 = 4 then (y - 1, 12, 31)
         else
           (let m = (r1 + 50) div 32;
                preceding = days_before_month y m
            in if r1 < preceding then (y, m - 1, r1 + days_in_month y (m - 1) - preceding + 1)
               else (y, m, r1 - preceding + 1)))"

text \<open>
  \<open>timedelta(days=n)\<close> raises for a magnitude above 999999999; subtracting it from a
  datetime keeps the time of day and raises when the date leaves the years 1 to 9999.
\<close>

definition timedelta :: "int \<Rightarrow> exn + int" where
  "timedelta days =
     (if 999999999 < \<bar>days\<bar> then
        Inl (OverflowError (''days='' @ str_int days @ ''; must have magnitude <= 999999999''))
      else Inr days)"

definition datetime_sub :: "datetime \<Rightarrow> int \<Rightarrow> exn + datetime" where
  "datetime_sub d delta_days =
     (let ordinal = int (ymd2ord (year d) (month d) (day d)) - delta_days
      in if 0 < ordinal \<and> ordinal \<le> 3652059 then
           (case ord2ymd (nat ordinal) of
              (y, m, dd) \<Rightarrow> Inr (d\<lparr>year := y, month := m, day := dd\<rparr>))
         else Inl (OverflowError ''date value out of range''))"

definition window_start :: "datetime \<Rightarrow> int \<Rightarrow> exn + datetime" where
  "window_start now days =
     (case timedelta days of Inl e \<Rightarrow> Inl e | Inr delta \<Rightarrow> datetime_sub now delta)"

subsection \<open>Whitespace and templates\<close>

text \<open>\<open>str.isspace\<close> on the code points below 256, and \<open>str.strip()\<close>.\<close>

definition py_isspace :: "char \<Rightarrow> bool" where
  "py_isspace c = (c \<in> set [CHR 0x09, CHR 0x0A, CHR 0x0B, CHR 0x0C, CHR 0x0D, CHR 0x1C, CHR 0x1D,
                             CHR 0x1E, CHR 0x1F, CHR 0x20, CHR 0x85, CHR 0xA0])"

definition strip :: "string \<Rightarrow> string" where
  "strip s = rev (dropWhile py_isspace (rev (dropWhile py_isspace s)))"

text \<open>A text that neither starts nor ends with whitespace.\<close>

definition trimmed :: "string \<Rightarrow> bool" where
  "trimmed s = (s = [] \<or> (\<not> py_isspace (hd s) \<and> \<not> py_isspace (last s)))"

text \<open>
  \<open>template.format(**kwargs)\<close> for plain named fields: \<open>{name}\<close> is replaced by the
  value of \<open>name\<close>, \<open>{{\<close> and \<open>}}\<close> are the escaped braces. The first argument is the
  field name read so far (\<open>None\<close> outside a field). Conversions and format
  specifications inside a field do not occur in the templates of this repository.
\<close>

fun sum_cons :: "string \<Rightarrow> exn + string \<Rightarrow> exn + string" where
  "sum_cons pre (Inl e) = Inl e"
| "sum_cons pre (Inr s) = Inr (pre @ s)"

fun py_format :: "string option \<Rightarrow> string \<Rightarrow> (string \<times> string) list \<Rightarrow> exn + string" where
  "py_format None [] kw = Inr []"
| "py_format (Some f) [] kw = Inl (ValueError ''expected } before end of string'')"
| "py_format (Some f) (c # cs) kw =
     (if c = CHR ''}'' then
        (case map_of kw f of
           None \<Rightarrow> Inl (KeyError f)
         | Some v \<Rightarrow> sum_cons v (py_format None cs kw))
      else py_format (Some (f @ [c])) cs kw)"
| "py_format None [c] kw =
     (if c = CHR ''{'' then Inl (ValueError ''Single { encountered in format string'')
      else if c = CHR ''}'' then Inl (ValueError ''Single } encountered in format string'')
      else Inr [c])"
| "py_format None (c # e # cs) kw =
     (if c = CHR ''{'' then
        (if e = CHR ''{'' then sum_cons ''{'' (py_format None cs kw)
         else py_format (Some []) (e # cs) kw)
      else if c = CHR ''}'' then
        (if e = CHR ''}'' then sum_cons ''}'' (py_format None cs kw)
         else Inl (ValueError ''Single } encountered in format string''))
      else sum_cons [c] (py_format None (e # cs) kw))"

section \<open>The storage engine and the provider\<close>

text \<open>
  The relational store holds the two tables, or is out of reach and raises on every
  statement. The world of one request: the process environment, the clock, the store,
  the text-generation provider (what it answers to a prompt), and two logs of what has
  been sent out: the statements issued to the store and the prompts sent to the
  provider. Calls to \<open>logger\<close> change none of these and are left out.
\<close>

record database =
  products :: "Product list"
  sales :: "Sale list"

datatype storage = Unavailable exn | Available database

record world =
  environ :: "(string \<times> string) list"
  clock :: datetime
  storage :: storage
  provider :: "string \<Rightarrow> exn + string"
  statements_issued :: nat
  prompts_sent :: "string list"

definition getenv :: "world \<Rightarrow> string \<Rightarrow> string option" where
  "getenv w k = map_of (environ w) k"

text \<open>\<open>await session.execute(statement)\<close>: the statement is a function of the tables.\<close>

definition session_execute :: "world \<Rightarrow> (database \<Rightarrow> 'r) \<Rightarrow> (exn + 'r) \<times> world" where
  "session_execute w statement =
     (let w' = w\<lparr>statements_issued := statements_issued w + 1\<rparr>
      in case storage w of
           Unavailable e \<Rightarrow> (Inl e, w')
         | Available db \<Rightarrow> (Inr (statement db), w'))"

subsection \<open>The two statements\<close>

text \<open>
  \<open>select(Sale, Product).join(Product, Sale.product_id == Product.id)
  .where(Sale.sale_date >= start_date).order_by(Sale.sale_date.desc())\<close>.
  The order among equal dates is the engine's; the model takes the one of a stable sort.
\<close>

definition recent_sales_statement :: "datetime \<Rightarrow> database \<Rightarrow> (Sale \<times> Product) list" where
  "recent_sales_statement start_date db =
     rev (sort_key (\<lambda>(s, p). dt_key (sale_date s))
       (filter (\<lambda>(s, p). dt_le start_date (sale_date s))
         [(s, p). s \<leftarrow> sales db, p \<leftarrow> products db, product_id s = p_id p]))"

text \<open>
  \<open>select(Product.name, sum(Sale.quantity), sum(Sale.total_amount))
  .join(Sale, Sale.product_id == Product.id).where(Sale.sale_date >= start_date)
  .group_by(Product.name).order_by(sum(Sale.quantity).desc()).limit(limit)\<close>.
  A negative \<open>LIMIT\<close> is no limit in SQLite, the engine of the default
  \<open>DATABASE_URL\<close>.
\<close>

definition sql_limit :: "int \<Rightarrow> 'a list \<Rightarrow> 'a list" where
  "sql_limit n xs = (if n < 0 then xs else take (nat n) xs)"

definition windowed_join :: "datetime \<Rightarrow> database \<Rightarrow> (Product \<times> Sale) list" where
  "windowed_join start_date db =
     filter (\<lambda>(p, s). dt_le start_date (sale_date s))
       [(p, s). p \<leftarrow> products db, s \<leftarrow> sales db, product_id s = p_id p]"

definition group_total :: "(Product \<times> Sale) list \<Rightarrow> string \<Rightarrow> string \<times> int \<times> rat" where
  "group_total joined n =
     (let members = filter (\<lambda>(p, s). name p = n) joined
      in (n, sum_list (map (\<lambda>(p, s). quantity s) members),
             sum_list (map (\<lambda>(p, s). total_amount s) members)))"

definition top_products_statement ::
    "datetime \<Rightarrow> int \<Rightarrow> database \<Rightarrow> (string \<times> int \<times> rat) list" where
  "top_products_statement start_date limit db =
     (let joined = windowed_join start_date db;
          groups = map (group_total joined) (remdups (map (\<lambda>(p, s). name p) joined))
      in sql_limit limit (rev (sort_key (\<lambda>(n, total_quantity, total_revenue). total_quantity) groups)))"

section \<open>The analyzer of app/services/sales_analyzer.py\<close>

record llm =
  temperature :: int
  model_name :: string
  openai_api_key :: "string option"

record chain =
  chain_llm :: llm
  template :: string

record insight =
  answer :: string
  context_used :: string

definition initialize_llm :: "world \<Rightarrow> exn + llm" where
  "initialize_llm w =
     (case getenv w ''OPENAI_API_KEY'' of
        None \<Rightarrow> Inl (RuntimeError ''OpenAI API key not configured'')
      | Some key \<Rightarrow>
          if key = [] then Inl (RuntimeError ''OpenAI API key not configured'')
          else Inr \<lparr>temperature = 0, model_name = ''gpt-3.5-turbo'', openai_api_key = Some key\<rparr>)"

definition analysis_template :: string where
  "analysis_template =
     ''\<newline>'' @
     ''            Voc'' @ [CHR 0xEA] @ '' '' @ [CHR 0xE9] @ '' um especialista em an'' @
     [CHR 0xE1] @ ''lise de vendas. \<newline>'' @
     ''            Responda '' @ [CHR 0xE0] @
     '' pergunta com base estritamente nos dados fornecidos.\<newline>'' @
     ''            \<newline>'' @
     ''            Diretrizes:\<newline>'' @
     ''            1. Seja conciso e preciso\<newline>'' @
     ''            2. Formate n'' @ [CHR 0xFA] @ ''meros e datas claramente\<newline>'' @
     ''            3. Se n'' @ [CHR 0xE3] @ ''o houver dados relevantes, informe '' @
     [CHR 0x22] @ ''N'' @ [CHR 0xE3] @ ''o h'' @ [CHR 0xE1] @ '' dados suficientes'' @
     [CHR 0x22] @ ''\<newline>'' @
     ''            4. Nunca invente informa'' @ [CHR 0xE7] @ [CHR 0xF5] @ ''es\<newline>'' @
     ''            \<newline>'' @
     ''            Pergunta: {question}\<newline>'' @
     ''            \<newline>'' @
     ''            Dados de vendas do per'' @ [CHR 0xED] @ ''odo:\<newline>'' @
     ''            {context}\<newline>'' @
     ''            \<newline>'' @
     ''            Resposta:\<newline>'' @
     ''            ''"

definition create_analysis_chain :: "llm \<Rightarrow> chain" where
  "create_analysis_chain l = \<lparr>chain_llm = l, template = analysis_template\<rparr>"

text \<open>The text of \<open>analysis_template\<close> before, between and after its two fields.\<close>

definition prompt_head :: string where
  "prompt_head =
     ''\<newline>'' @
     ''            Voc'' @ [CHR 0xEA] @ '' '' @ [CHR 0xE9] @ '' um especialista em an'' @
     [CHR 0xE1] @ ''lise de vendas. \<newline>'' @
     ''            Responda '' @ [CHR 0xE0] @
     '' pergunta com base estritamente nos dados fornecidos.\<newline>'' @
     ''            \<newline>'' @
     ''            Diretrizes:\<newline>'' @
     ''            1. Seja conciso e preciso\<newline>'' @
     ''            2. Formate n'' @ [CHR 0xFA] @ ''meros e datas claramente\<newline>'' @
     ''            3. Se n'' @ [CHR 0xE3] @ ''o houver dados relevantes, informe '' @
     [CHR 0x22] @ ''N'' @ [CHR 0xE3] @ ''o h'' @ [CHR 0xE1] @ '' dados suficientes'' @
     [CHR 0x22] @ ''\<newline>'' @
     ''            4. Nunca invente informa'' @ [CHR 0xE7] @ [CHR 0xF5] @ ''es\<newline>'' @
     ''            \<newline>'' @
     ''            Pergunta: ''"

definition prompt_middle :: string where
  "prompt_middle =
     ''\<newline>'' @
     ''            \<newline>'' @
     ''            Dados de vendas do per'' @ [CHR 0xED] @ ''odo:\<newline>'' @
     ''            ''"

definition prompt_tail :: string where
  "prompt_tail =
     ''\<newline>'' @
     ''            \<newline>'' @
     ''            Resposta:\<newline>'' @
     ''            ''"

text \<open>\<open>SalesAnalyzer()\<close>: the constructor runs \<open>_initialize_llm\<close> first.\<close>

definition SalesAnalyzer :: "world \<Rightarrow> exn + chain" where
  "SalesAnalyzer w =
     (case initialize_llm w of
        Inl e \<Rightarrow> Inl e
      | Inr l \<Rightarrow> Inr (create_analysis_chain l))"

text \<open>
  \<open>_get_sales_data\<close>: the window start and the statement both run inside the
  \<open>try\<close>; every exception leaves as the same \<open>HTTPException\<close>.
\<close>

definition get_sales_data :: "world \<Rightarrow> int \<Rightarrow> (exn + (Sale \<times> Product) list) \<times> world" where
  "get_sales_data w days =
     (case window_start (clock w) days of
        Inl e \<Rightarrow>
          (Inl (HTTPException 500 (''Erro ao acessar dados hist'' @ [CHR 0xF3] @ ''ricos de vendas'')), w)
      | Inr start_date \<Rightarrow>
          (case session_execute w (recent_sales_statement start_date) of
             (Inl e, w') \<Rightarrow>
               (Inl (HTTPException 500 (''Erro ao acessar dados hist'' @ [CHR 0xF3] @ ''ricos de vendas'')), w')
           | (Inr rows, w') \<Rightarrow> (Inr rows, w')))"

text \<open>
  \<open>chain.arun(question=..., context=...)\<close>: the template is filled in and the prompt
  goes to the provider, which answers or raises.
\<close>

definition chain_arun :: "chain \<Rightarrow> world \<Rightarrow> string \<Rightarrow> string \<Rightarrow> (exn + string) \<times> world" where
  "chain_arun c w question context =
     (case py_format None (template c) [(''question'', question), (''context'', context)] of
        Inl e \<Rightarrow> (Inl e, w)
      | Inr prompt \<Rightarrow> (provider w prompt, w\<lparr>prompts_sent := prompts_sent w @ [prompt]\<rparr>))"

text \<open>The two \<open>except\<close> clauses of \<open>analyze_sales\<close>, in their order.\<close>

fun analysis_except :: "exn \<Rightarrow> exn" where
  "analysis_except (HTTPException code detail) = HTTPException code detail"
| "analysis_except e = HTTPException 500 ''Erro ao gerar insights de vendas''"

definition analyze_sales :: "chain \<Rightarrow> world \<Rightarrow> string \<Rightarrow> int \<Rightarrow> (exn + insight) \<times> world" where
  "analyze_sales self w question days =
     (case get_sales_data w days of
        (Inl e, w1) \<Rightarrow> (Inl (analysis_except e), w1)
      | (Inr sales_data, w1) \<Rightarrow>
          (let context = format_context sales_data
           in case chain_arun self w1 question context of
                (Inl e, w2) \<Rightarrow> (Inl (analysis_except e), w2)
              | (Inr response, w2) \<Rightarrow>
                  (Inr \<lparr>answer = strip response, context_used = context\<rparr>, w2)))"

section \<open>The analyzer of app/langchain_service.py\<close>

text \<open>
  This constructor passes no key: the client library reads \<open>OPENAI_API_KEY\<close> itself
  and refuses to build a client without one.
\<close>

definition ChatOpenAI :: "world \<Rightarrow> exn + llm" where
  "ChatOpenAI w =
     (case getenv w ''OPENAI_API_KEY'' of
        None \<Rightarrow> Inl (ValueError ''Did not find openai_api_key'')
      | Some key \<Rightarrow>
          if key = [] then Inl (ValueError ''Did not find openai_api_key'')
          else Inr \<lparr>temperature = 0, model_name = ''gpt-3.5-turbo'', openai_api_key = Some key\<rparr>)"

definition question_template :: string where
  "question_template =
     ''\<newline>'' @
     ''            Voc'' @ [CHR 0xEA] @ '' '' @ [CHR 0xE9] @ '' um especialista em an'' @
     [CHR 0xE1] @ ''lise de vendas. \<newline>'' @
     ''            Responda '' @ [CHR 0xE0] @
     '' pergunta com base estritamente nos dados fornecidos.\<newline>'' @
     ''            \<newline>'' @
     ''            Diretrizes:\<newline>'' @
     ''            1. Seja conciso e preciso\<newline>'' @
     ''            2. Formate n'' @ [CHR 0xFA] @ ''meros e datas claramente\<newline>'' @
     ''            3. Se n'' @ [CHR 0xE3] @ ''o houver dados relevantes, informe '' @
     [CHR 0x22] @ ''N'' @ [CHR 0xE3] @ ''o h'' @ [CHR 0xE1] @ '' dados suficientes'' @
     [CHR 0x22] @ ''\<newline>'' @
     ''            4. Nunca invente informa'' @ [CHR 0xE7] @ [CHR 0xF5] @ ''es\<newline>'' @
     ''            \<newline>'' @
     ''            Pergunta: {question}\<newline>'' @
     ''            \<newline>'' @
     ''            Dados de vendas da '' @ [CHR 0xFA] @ ''ltima semana:\<newline>'' @
     ''            {context}\<newline>'' @
     ''            \<newline>'' @
     ''            Resposta:\<newline>'' @
     ''            ''"

definition LangchainSalesAnalyzer :: "world \<Rightarrow> exn + chain" where
  "LangchainSalesAnalyzer w =
     (case ChatOpenAI w of
        Inl e \<Rightarrow> Inl e
      | Inr l \<Rightarrow> Inr \<lparr>chain_llm = l, template = question_template\<rparr>)"

text \<open>\<open>_get_recent_sales_data\<close> logs and re-raises what it caught.\<close>

definition get_recent_sales_data :: "world \<Rightarrow> int \<Rightarrow> (exn + (Sale \<times> Product) list) \<times> world" where
  "get_recent_sales_data w days =
     (case window_start (clock w) days of
        Inl e \<Rightarrow> (Inl e, w)
      | Inr last_week \<Rightarrow>
          (case session_execute w (recent_sales_statement last_week) of
             (Inl e, w') \<Rightarrow> (Inl e, w')
           | (Inr rows, w') \<Rightarrow> (Inr rows, w')))"

text \<open>
  \<open>analyze_sales_question(self, question)\<close>: the day count is the default 7, and
  every exception becomes an apology that is returned as the answer.
\<close>

definition analyze_sales_question :: "chain \<Rightarrow> world \<Rightarrow> string \<Rightarrow> (exn + string) \<times> world" where
  "analyze_sales_question self w question =
     (case get_recent_sales_data w 7 of
        (Inl e, w1) \<Rightarrow>
          (Inr (''Desculpe, ocorreu um erro ao processar sua solicita'' @ [CHR 0xE7, CHR 0xE3] @ ''o.''), w1)
      | (Inr sales_data, w1) \<Rightarrow>
          (let context = format_sales_context sales_data
           in case chain_arun self w1 question context of
                (Inl e, w2) \<Rightarrow>
                  (Inr (''Desculpe, ocorreu um erro ao processar sua solicita'' @ [CHR 0xE7, CHR 0xE3] @ ''o.''), w2)
              | (Inr response, w2) \<Rightarrow> (Inr (strip response), w2)))"

section \<open>The request handlers of app/main.py\<close>

subsection \<open>Calling a method\<close>

text \<open>
  The arguments of a call are Python values; \<open>analyze_sales_question\<close> declares one
  parameter after \<open>self\<close>, and a call with any other number of positional arguments
  raises \<open>TypeError\<close> before the body runs.
\<close>

datatype pyval = PyStr string | PyInt int

fun py_str :: "pyval \<Rightarrow> string" where
  "py_str (PyStr s) = s"
| "py_str (PyInt i) = str_int i"

definition call_analyze_sales_question ::
    "chain \<Rightarrow> world \<Rightarrow> pyval list \<Rightarrow> (exn + string) \<times> world" where
  "call_analyze_sales_question self w args =
     (case args of
        [question] \<Rightarrow> analyze_sales_question self w (py_str question)
      | _ \<Rightarrow>
          (Inl (TypeError (''SalesAnalyzer.analyze_sales_question() takes 2 positional arguments but '' @
                  str_int (int (length args) + 1) @ '' were given'')), w))"

record SalesInsightResponse =
  response_answer :: string
  response_context_used :: "string option"

text \<open>\<open>GET /sales-insights\<close>: main.py imports \<open>SalesAnalyzer\<close> from app/langchain_service.py.\<close>

definition sales_insights :: "world \<Rightarrow> string \<Rightarrow> int \<Rightarrow> (exn + SalesInsightResponse) \<times> world" where
  "sales_insights w question days =
     (case LangchainSalesAnalyzer w of
        Inl e \<Rightarrow> (Inl (HTTPException 500 ''Error processing your question''), w)
      | Inr analyzer \<Rightarrow>
          (case call_analyze_sales_question analyzer w [PyStr question, PyInt days] of
             (Inl e, w') \<Rightarrow> (Inl (HTTPException 500 ''Error processing your question''), w')
           | (Inr response, w') \<Rightarrow>
               (Inr \<lparr>response_answer = response, response_context_used = None\<rparr>, w')))"

subsection \<open>The session dependency\<close>

text \<open>
  The names that the statements of app/main.py bind at its top level, in the order of
  the file, with what matters of the object each is bound to: a session factory, or
  anything else. A name that is neither bound here nor a builtin (\<open>async_session\<close>
  is not one) raises \<open>NameError\<close> when it is read.
\<close>

datatype pyobj = SessionFactory | OtherObject

datatype session = AsyncSession

definition main_globals :: "(string \<times> pyobj) list" where
  "main_globals =
     [(''FastAPI'', OtherObject), (''Query'', OtherObject), (''HTTPException'', OtherObject),
      (''Depends'', OtherObject), (''CORSMiddleware'', OtherObject), (''AsyncSession'', OtherObject),
      (''select'', OtherObject), (''func'', OtherObject), (''datetime'', OtherObject),
      (''timedelta'', OtherObject), (''List'', OtherObject), (''Dict'', OtherObject),
      (''Optional'', OtherObject), (''logging'', OtherObject), (''engine'', OtherObject),
      (''SessionLocal'', SessionFactory), (''models'', OtherObject), (''SalesAnalyzer'', OtherObject),
      (''BaseModel'', OtherObject), (''logger'', OtherObject), (''app'', OtherObject),
      (''TopProductResponse'', OtherObject), (''SalesInsightResponse'', OtherObject),
      (''get_db'', OtherObject), (''startup'', OtherObject), (''shutdown'', OtherObject),
      (''sales_insights'', OtherObject), (''top_products'', OtherObject),
      (''health_check'', OtherObject)]"

definition database_globals :: "(string \<times> pyobj) list" where
  "database_globals =
     [(''create_async_engine'', OtherObject), (''AsyncSession'', OtherObject),
      (''async_sessionmaker'', OtherObject), (''declarative_base'', OtherObject),
      (''NullPool'', OtherObject), (''AsyncGenerator'', OtherObject), (''os'', OtherObject),
      (''DATABASE_URL'', OtherObject), (''ECHO_SQL'', OtherObject), (''engine'', OtherObject),
      (''SessionLocal'', SessionFactory), (''Base'', OtherObject), (''get_db'', OtherObject)]"

definition load_global :: "(string \<times> pyobj) list \<Rightarrow> string \<Rightarrow> exn + pyobj" where
  "load_global globals n =
     (case map_of globals n of
        None \<Rightarrow> Inl (NameError (''name '' @ [CHR 0x27] @ n @ [CHR 0x27] @ '' is not defined''))
      | Some v \<Rightarrow> Inr v)"

fun call_factory :: "pyobj \<Rightarrow> exn + session" where
  "call_factory SessionFactory = Inr AsyncSession"
| "call_factory OtherObject = Inl (TypeError ''object is not callable'')"

text \<open>\<open>get_db\<close> of app/main.py opens its session with \<open>async_session()\<close>.\<close>

definition main_get_db :: "exn + session" where
  "main_get_db =
     (case load_global main_globals ''async_session'' of
        Inl e \<Rightarrow> Inl e
      | Inr factory \<Rightarrow> call_factory factory)"

text \<open>\<open>get_db\<close> of app/database.py opens it with \<open>SessionLocal()\<close>.\<close>

definition database_get_db :: "exn + session" where
  "database_get_db =
     (case load_global database_globals ''SessionLocal'' of
        Inl e \<Rightarrow> Inl e
      | Inr factory \<Rightarrow> call_factory factory)"

subsection \<open>\<open>GET /top-products\<close>\<close>

record TopProductResponse =
  product :: string
  total_sold :: int
  revenue :: "rat option"

text \<open>
  \<open>round(float(total_revenue), 2)\<close> is carried as the exact rational rounded to two
  digits; the binary representation of a float is outside this embedding.
\<close>

definition round2 :: "rat \<Rightarrow> rat" where
  "round2 x = of_int (round_half_even (x * 100)) / 100"

definition top_products ::
    "world \<Rightarrow> session \<Rightarrow> int \<Rightarrow> int \<Rightarrow> (exn + TopProductResponse list) \<times> world" where
  "top_products w db days limit =
     (case window_start (clock w) days of
        Inl e \<Rightarrow> (Inl (HTTPException 500 ''Error fetching top products''), w)
      | Inr start_date \<Rightarrow>
          (case session_execute w (top_products_statement start_date limit) of
             (Inl e, w') \<Rightarrow> (Inl (HTTPException 500 ''Error fetching top products''), w')
           | (Inr rows, w') \<Rightarrow>
               (Inr (map (\<lambda>(n, total_quantity, total_revenue).
                        \<lparr>product = n, total_sold = total_quantity,
                         revenue = Some (round2 total_revenue)\<rparr>) rows), w')))"

text \<open>The route: FastAPI resolves \<open>Depends(get_db)\<close> first and calls the handler with it.\<close>

definition top_products_route ::
    "world \<Rightarrow> int \<Rightarrow> int \<Rightarrow> (exn + TopProductResponse list) \<times> world" where
  "top_products_route w days limit =
     (case main_get_db of
        Inl e \<Rightarrow> (Inl e, w)
      | Inr db \<Rightarrow> top_products w db days limit)"

section \<open>The validators of app/models.py\<close>

definition validate_quantity :: "int \<Rightarrow> exn + int" where
  "validate_quantity q =
     (if q \<le> 0 then Inl (ValueError ''Quantity must be positive'') else Inr q)"

text \<open>\<open>round(price, 2)\<close> of a decimal: two fractional digits, ties to even.\<close>

definition validate_prices :: "rat \<Rightarrow> exn + rat" where
  "validate_prices x =
     (if x \<le> 0 then Inl (ValueError ''Price must be positive'') else Inr (round2 x))"

text \<open>
  \<open>re.match(r'^[A-Z0-9-]+$', sku)\<close>: the longest run of characters of the class from the
  start of the text, then \<open>$\<close>, which Python matches at the end of the text and also
  just before a newline that ends the text. A shorter run is followed by a character of
  the class, where \<open>$\<close> cannot match, so backtracking finds nothing more.
\<close>

definition sku_char :: "char \<Rightarrow> bool" where
  "sku_char c = (c \<in> set ''ABCDEFGHIJKLMNOPQRSTUVWXYZ0123456789-'')"

definition re_match_sku :: "string \<Rightarrow> bool" where
  "re_match_sku s =
     (let run = takeWhile sku_char s; rest = dropWhile sku_char s
      in run \<noteq> [] \<and> (rest = [] \<or> rest = ''\<newline>''))"

definition validate_sku :: "string \<Rightarrow> exn + string" where
  "validate_sku s =
     (if \<not> re_match_sku s then
        Inl (ValueError ''SKU must contain only uppercase letters, numbers and hyphens'')
      else Inr s)"

section \<open>Example data\<close>

text \<open>
  A small store used to run the functions above on concrete inputs: two products, three
  sales of them (one outside a seven-day window), and one sale whose product is not in
  the catalogue. Outside the store, a sale of the year 999 and a product whose name has
  two lines.
\<close>

definition product_widget :: Product where
  "product_widget = \<lparr>p_id = 7, sku = ''WID-1'', name = ''Widget'', description = None,
     category = None, price = 10, stock_quantity = 5\<rparr>"

definition product_gadget :: Product where
  "product_gadget = \<lparr>p_id = 8, sku = ''GAD-2'', name = ''Gadget'', description = None,
     category = Some ''tools'', price = 25 / 2, stock_quantity = 9\<rparr>"

definition sale_widget :: Sale where
  "sale_widget = \<lparr>s_id = 1, product_id = 7, customer_id = None, quantity = 3, unit_price = 10,
     total_amount = 30,
     sale_date = \<lparr>year = 2024, month = 1, day = 15, hour = 10, minute = 30, second = 0,
       microsecond = 0\<rparr>,
     payment_method = None\<rparr>"

definition sale_gadget :: Sale where
  "sale_gadget = \<lparr>s_id = 2, product_id = 8, customer_id = Some 4, quantity = 1,
     unit_price = 25 / 2, total_amount = 25 / 2,
     sale_date = \<lparr>year = 2024, month = 1, day = 9, hour = 8, minute = 5, second = 0,
       microsecond = 0\<rparr>,
     payment_method = Some ''card''\<rparr>"

definition sale_old :: Sale where
  "sale_old = \<lparr>s_id = 3, product_id = 8, customer_id = None, quantity = 6,
     unit_price = 25 / 2, total_amount = 75,
     sale_date = \<lparr>year = 2023, month = 12, day = 1, hour = 23, minute = 59, second = 0,
       microsecond = 0\<rparr>,
     payment_method = None\<rparr>"

definition sale_orphan :: Sale where
  "sale_orphan = \<lparr>s_id = 4, product_id = 99, customer_id = None, quantity = 2,
     unit_price = 1, total_amount = 2,
     sale_date = \<lparr>year = 2024, month = 1, day = 14, hour = 12, minute = 0, second = 0,
       microsecond = 0\<rparr>,
     payment_method = None\<rparr>"

definition sale_ancient :: Sale where
  "sale_ancient = \<lparr>s_id = 5, product_id = 7, customer_id = None, quantity = 3, unit_price = 10,
     total_amount = 30,
     sale_date = \<lparr>year = 999, month = 1, day = 2, hour = 3, minute = 4, second = 0,
       microsecond = 0\<rparr>,
     payment_method = None\<rparr>"

definition product_two_lines :: Product where
  "product_two_lines = \<lparr>p_id = 7, sku = ''WID-1'', name = ''A\<newline>B'', description = None,
     category = None, price = 10, stock_quantity = 5\<rparr>"

definition example_db :: database where
  "example_db = \<lparr>products = [product_widget, product_gadget],
     sales = [sale_old, sale_gadget, sale_orphan, sale_widget]\<rparr>"

definition example_now :: datetime where
  "example_now = \<lparr>year = 2024, month = 1, day = 15, hour = 12, minute = 0, second = 0,
     microsecond = 0\<rparr>"

definition example_provider :: "string \<Rightarrow> exn + string" where
  "example_provider prompt = Inr ''  Widget sold best.\<newline>''"

definition example_world :: world where
  "example_world = \<lparr>environ = [(''OPENAI_API_KEY'', ''sk-test'')], clock = example_now,
     storage = Available example_db, provider = example_provider, statements_issued = 0,
     prompts_sent = []\<rparr>"

definition offline_world :: world where
  "offline_world = example_world\<lparr>storage := Unavailable (StorageError ''connection refused'')\<rparr>"

definition example_chain :: chain where
  "example_chain = create_analysis_chain
     \<lparr>temperature = 0, model_name = ''gpt-3.5-turbo'', openai_api_key = Some ''sk-test''\<rparr>"

section \<open>Verification\<close>

subsection \<open>Digits, padding and timestamps\<close>

lemma digit_char_is_digit: "is_digit (digit_char n)"
  unfolding digit_char_def is_digit_def by (rule nth_mem) simp

lemma digits_nat_digits: "\<forall>c \<in> set (digits_nat n). is_digit c"
  by (induction n rule: digits_nat.induct) (subst digits_nat.simps, auto simp: digit_char_is_digit)

lemma digits_nat_nonempty: "digits_nat n \<noteq> []"
  by (subst digits_nat.simps) simp

lemma digits_nat_lt10: "n < 10 \<Longrightarrow> digits_nat n = [digit_char n]"
  by (subst digits_nat.simps) simp

lemma digits_nat_lt100: "10 \<le> n \<Longrightarrow> n < 100 \<Longrightarrow> digits_nat n = [digit_char (n div 10), digit_char n]"
  by (subst digits_nat.simps) (simp add: digits_nat_lt10)

lemma digit_char_zero: "digit_char 0 = CHR ''0''"
  by (simp add: digit_char_def)

lemma replicate_small:
  "replicate 2 c = [c, c]" "replicate 3 c = [c, c, c]" "replicate (Suc 0) c = [c]"
  by (simp_all add: numeral_2_eq_2 numeral_3_eq_3)

lemma zfill2: "n < 100 \<Longrightarrow> zfill 2 (digits_nat n) = two_digits n"
  by (cases "n < 10") (simp_all add: zfill_def two_digits_def digits_nat_lt10 digits_nat_lt100 digit_char_zero)

lemma digits_nat_lt1000: "100 \<le> n \<Longrightarrow> n < 1000 \<Longrightarrow> digits_nat n = [digit_char (n div 100), digit_char (n div 10), digit_char n]"
  by (subst digits_nat.simps) (simp add: digits_nat_lt100 div_mult2_eq[symmetric])

lemma digits_nat_lt10000: "1000 \<le> n \<Longrightarrow> n < 10000 \<Longrightarrow> digits_nat n = [digit_char (n div 1000), digit_char (n div 100), digit_char (n div 10), digit_char n]"
  by (subst digits_nat.simps) (simp add: digits_nat_lt1000 div_mult2_eq[symmetric])

lemma digits_nat_four: "1000 \<le> n \<Longrightarrow> n < 10000 \<Longrightarrow> digits_nat n = four_digits n"
  by (simp add: digits_nat_lt10000 four_digits_def)

lemma days_in_month_le: "1 \<le> m \<Longrightarrow> m \<le> 12 \<Longrightarrow> days_in_month y m \<le> 31"
proof -
  assume m: "1 \<le> m" "m \<le> 12"
  let ?t = "[31, 28, 31, 30, 31, 30, 31, 31, 30, 31, 30, 31] :: nat list"
  have "?t ! (m - 1) \<in> set ?t" by (rule nth_mem) (use m in simp)
  moreover have "\<forall>x \<in> set ?t. x \<le> 31" by simp
  ultimately have "?t ! (m - 1) \<le> 31" by blast
  then show ?thesis unfolding days_in_month_def by simp
qed

lemma strftime_timestamp:
  assumes "valid_datetime d"
  shows "strftime ''%d/%m/%Y %H:%M'' d = timestamp_text d"
proof -
  have "day d \<le> 31" using assms days_in_month_le[of "month d" "year d"] unfolding valid_datetime_def
    by simp
  then have "day d < 100" "month d < 100" "hour d < 100" "minute d < 100"
    using assms unfolding valid_datetime_def by simp_all
  then show ?thesis
    by (simp add: directive_def timestamp_text_def zfill2)
qed

lemma timestamp_text_fixed_width:
  "1000 \<le> year d \<Longrightarrow> year d \<le> 9999 \<Longrightarrow> timestamp_text d = fixed_width_timestamp d"
  by (simp add: timestamp_text_def fixed_width_timestamp_def digits_nat_four)

lemma length_fixed_width_timestamp: "length (fixed_width_timestamp d) = 16"
  by (simp add: fixed_width_timestamp_def two_digits_def four_digits_def)

lemma two_fraction_digits_format_2f: "two_fraction_digits (format_2f x)"
proof -
  define c where "c = nat (round_half_even (\<bar>x\<bar> * 100))"
  define ip where "ip = digits_nat (c div 100)"
  have fr: "zfill 2 (digits_nat (c mod 100)) = two_digits (c mod 100)" by (simp add: zfill2)
  have ipd: "\<forall>ch \<in> set ip. is_digit ch" "ip \<noteq> []"
    unfolding ip_def by (simp_all add: digits_nat_digits digits_nat_nonempty)
  have nd: "\<not> is_digit CHR ''.''" "\<not> is_digit CHR ''-''" by (simp_all add: is_digit_def)
  have tw: "takeWhile is_digit (ip @ CHR ''.'' # two_digits (c mod 100)) = ip"
    using ipd nd by (simp add: takeWhile_append2 two_digits_def)
  have dw: "dropWhile is_digit (ip @ CHR ''.'' # two_digits (c mod 100)) = CHR ''.'' # two_digits (c mod 100)"
    using ipd nd by (simp add: dropWhile_append2)
  have hd: "hd ip \<noteq> CHR ''-''" using ipd nd by (cases ip) auto
  show ?thesis
  proof (cases "x < 0")
    case True
    then have "format_2f x = CHR ''-'' # ip @ CHR ''.'' # two_digits (c mod 100)"
      unfolding format_2f_def Let_def c_def[symmetric] ip_def[symmetric] fr by simp
    then show ?thesis using tw dw ipd
      by (simp add: two_fraction_digits_def two_digits_def digit_char_is_digit)
  next
    case False
    then have e: "format_2f x = ip @ CHR ''.'' # two_digits (c mod 100)"
      unfolding format_2f_def Let_def c_def[symmetric] ip_def[symmetric] fr by simp
    obtain a as where ip: "ip = a # as" using ipd by (cases ip) auto
    with hd have "a \<noteq> CHR ''-''" by simp
    then show ?thesis using tw dw ipd unfolding e
      by (simp add: two_fraction_digits_def two_digits_def digit_char_is_digit ip)
  qed
qed


lemma split_on_nonempty: "split_on c s \<noteq> []"
  by (induction s) (auto split: list.splits)

lemma split_on_plain: "c \<notin> set x \<Longrightarrow> split_on c x = [x]"
  by (induction x) auto

lemma split_on_append: "c \<notin> set x \<Longrightarrow> split_on c (x @ c # rest) = x # split_on c rest"
  by (induction x) (auto split: list.splits simp: split_on_nonempty)

lemma split_on_join:
  "ls \<noteq> [] \<Longrightarrow> \<forall>l \<in> set ls. c \<notin> set l \<Longrightarrow> split_on c (str_join [c] ls) = ls"
  by (induction "[c]" ls rule: str_join.induct) (simp_all add: split_on_plain split_on_append)

lemma str_join_nonempty:
  "ls \<noteq> [] \<Longrightarrow> last ls \<noteq> [] \<Longrightarrow> str_join sep ls \<noteq> []"
  by (induction sep ls rule: str_join.induct) simp_all

lemma last_str_join:
  "ls \<noteq> [] \<Longrightarrow> last ls \<noteq> [] \<Longrightarrow> last (str_join sep ls) = last (last ls)"
  by (induction sep ls rule: str_join.induct) (simp_all add: str_join_nonempty)

lemma context_lines_acc:
  "context_lines rows acc = acc @ map (\<lambda>(sale, product). format_line sale product) rows"
  by (induction rows acc rule: context_lines.induct) simp_all

lemma format_line_row_text:
  "valid_datetime (sale_date s) \<Longrightarrow> format_line s p = row_text (s, p)"
  by (simp add: format_line_def row_text_def strftime_timestamp del: strftime.simps)

lemma map_format_line_row_text:
  "\<forall>r \<in> set rows. valid_datetime (sale_date (fst r)) \<Longrightarrow>
   map (\<lambda>(sale, product). format_line sale product) rows = map row_text rows"
  by (induction rows) (auto simp: format_line_row_text)

lemma is_digit_not_newline: "is_digit c \<Longrightarrow> c \<noteq> CHR ''\<newline>''"
  by (auto simp: is_digit_def)

lemma newline_notin_digits: "CHR ''\<newline>'' \<notin> set (digits_nat n)"
  using digits_nat_digits[of n] is_digit_not_newline by blast

lemma digit_char_not_newline: "digit_char n \<noteq> CHR ''\<newline>''"
  by (rule is_digit_not_newline) (rule digit_char_is_digit)

lemma newline_notin_two_digits: "CHR ''\<newline>'' \<notin> set (two_digits n)"
  using digit_char_not_newline[of n] digit_char_not_newline[of "n div 10"]
  by (simp add: two_digits_def)

lemma newline_notin_str_int: "CHR ''\<newline>'' \<notin> set (str_int i)"
  by (simp add: str_int_def newline_notin_digits)

lemma newline_notin_format_2f: "CHR ''\<newline>'' \<notin> set (format_2f x)"
  by (simp add: format_2f_def Let_def zfill2 newline_notin_digits newline_notin_two_digits)

lemma newline_notin_timestamp: "CHR ''\<newline>'' \<notin> set (timestamp_text d)"
  by (simp add: timestamp_text_def newline_notin_two_digits newline_notin_digits)

lemma newline_notin_row_text:
  "CHR ''\<newline>'' \<notin> set (name p) \<Longrightarrow> CHR ''\<newline>'' \<notin> set (row_text (s, p))"
  by (simp add: row_text_def newline_notin_str_int newline_notin_format_2f newline_notin_timestamp)

lemma last_row_text: "row_text r \<noteq> [] \<and> is_digit (last (row_text r))"
  by (cases r) (simp add: row_text_def timestamp_text_def two_digits_def digit_char_is_digit)

lemma length_split_on: "length (split_on c s) = Suc (length (filter (\<lambda>x. x = c) s))"
  by (induction s) (auto split: list.splits simp: split_on_nonempty)

lemma newlines_append: "newlines (a @ b) = newlines a + newlines b"
  by (simp add: newlines_def)

lemma newlines_none: "CHR ''\<newline>'' \<notin> set s \<Longrightarrow> newlines s = 0"
  by (induction s) (auto simp: newlines_def)

lemma newlines_row_text: "newlines (row_text (s, p)) = newlines (name p)"
proof -
  have "newlines (row_text (s, p)) =
      newlines ''- '' + newlines (name p) + newlines '': '' + newlines (str_int (quantity s)) +
      newlines '' unid. (R$'' + newlines (format_2f (total_amount s)) + newlines '') em '' +
      newlines (timestamp_text (sale_date s))"
    by (simp only: row_text_def prod.case newlines_append)
  moreover have "newlines ''- '' = 0" "newlines '': '' = 0" "newlines '' unid. (R$'' = 0"
    "newlines '') em '' = 0"
    by (simp_all add: newlines_def)
  ultimately show ?thesis
    by (simp add: newlines_none newline_notin_str_int newline_notin_format_2f
        newline_notin_timestamp)
qed

lemma newlines_str_join:
  "ls \<noteq> [] \<Longrightarrow>
   Suc (newlines (str_join ''\<newline>'' ls)) = length ls + sum_list (map newlines ls)"
  by (induction "''\<newline>''" ls rule: str_join.induct)
     (simp_all add: newlines_append, simp add: newlines_def)

lemma sum_newlines_row_text:
  "sum_list (map newlines (map row_text rows)) = sum_list (map (\<lambda>r. newlines (name (snd r))) rows)"
  by (induction rows) (auto simp: newlines_row_text)

subsection \<open>The formatter's contract\<close>

text \<open>
  Claim C3 fails as it is stated, at two inputs. A single row whose product is named
  \<open>A\<close>, newline, \<open>B\<close> gives a text of two lines, not one line per input row. A sale
  of the year 999 is shown with the three-digit year \<open>02/01/999 03:04\<close>, fifteen
  characters, not the fixed-width sixteen.
\<close>

theorem format_context_contract_counterexample:
  "split_on CHR ''\<newline>'' (format_context [(sale_widget, product_two_lines)]) =
     [''- A'', ''B: 3 unid. (R$30.00) em 15/01/2024 10:30''] \<and>
   length (split_on CHR ''\<newline>'' (format_context [(sale_widget, product_two_lines)])) = 2 \<and>
   length [(sale_widget, product_two_lines)] = 1 \<and>
   format_context [(sale_ancient, product_widget)] =
     ''- Widget: 3 unid. (R$30.00) em 02/01/999 03:04'' \<and>
   valid_datetime (sale_date sale_ancient) \<and>
   strftime ''%d/%m/%Y %H:%M'' (sale_date sale_ancient) \<noteq> fixed_width_timestamp (sale_date sale_ancient)"
proof -
  have a: "format_context [(sale_widget, product_two_lines)] =
      ''- A\<newline>B: 3 unid. (R$30.00) em 15/01/2024 10:30''"
    by code_simp
  have b: "format_context [(sale_ancient, product_widget)] =
      ''- Widget: 3 unid. (R$30.00) em 02/01/999 03:04''"
    by code_simp
  have v: "valid_datetime (sale_date sale_ancient)"
    by (simp add: valid_datetime_def days_in_month_def is_leap_def sale_ancient_def)
  have "strftime ''%d/%m/%Y %H:%M'' (sale_date sale_ancient) = ''02/01/999 03:04''"
    by code_simp
  then have l: "length (strftime ''%d/%m/%Y %H:%M'' (sale_date sale_ancient)) = 15"
    by simp
  have n: "strftime ''%d/%m/%Y %H:%M'' (sale_date sale_ancient) \<noteq>
      fixed_width_timestamp (sale_date sale_ancient)"
  proof
    assume "strftime ''%d/%m/%Y %H:%M'' (sale_date sale_ancient) =
      fixed_width_timestamp (sale_date sale_ancient)"
    then have "length (strftime ''%d/%m/%Y %H:%M'' (sale_date sale_ancient)) =
      length (fixed_width_timestamp (sale_date sale_ancient))"
      by (rule arg_cong)
    with l show False by (simp only: length_fixed_width_timestamp)
  qed
  show ?thesis unfolding a using b v n by (simp del: strftime.simps)
qed

text \<open>
  Claim C3, amended. \<open>format_context\<close> of the empty sequence is the fixed no-data
  sentence. Of a non-empty sequence of rows (whose dates are dates Python can hold) it is
  the rendered rows, one per input row and in input order, joined by single newlines;
  each rendered row holds the product name, the quantity, the total amount with
  exactly two fractional digits and the sale timestamp \<open>day/month/year hour:minute\<close>
  with day, month, hour and minute zero padded to two digits and the year in decimal,
  which makes the sixteen characters \<open>dd/mm/yyyy HH:MM\<close> for the years from 1000 on.
  The text does not end in a newline. It has one line for every input row and one more
  for every newline inside a product name: exactly one line per input row, and these
  lines are the rendered rows, when no product name contains a newline.
\<close>

theorem format_context_contract:
  "format_context [] = ''Nenhuma venda registrada no per'' @ [CHR 0xED] @ ''odo solicitado.'' \<and>
   (rows \<noteq> [] \<and> (\<forall>r \<in> set rows. valid_datetime (sale_date (fst r))) \<longrightarrow>
      format_context rows = str_join ''\<newline>'' (map row_text rows) \<and>
      (\<forall>r \<in> set rows.
          two_fraction_digits (format_2f (total_amount (fst r))) \<and>
          (1000 \<le> year (sale_date (fst r)) \<longrightarrow>
             timestamp_text (sale_date (fst r)) = fixed_width_timestamp (sale_date (fst r)) \<and>
             length (timestamp_text (sale_date (fst r))) = 16)) \<and>
      last (format_context rows) \<noteq> CHR ''\<newline>'' \<and>
      length (split_on CHR ''\<newline>'' (format_context rows)) =
        length rows + sum_list (map (\<lambda>r. newlines (name (snd r))) rows) \<and>
      ((\<forall>r \<in> set rows. CHR ''\<newline>'' \<notin> set (name (snd r))) \<longrightarrow>
         split_on CHR ''\<newline>'' (format_context rows) = map row_text rows \<and>
         length (split_on CHR ''\<newline>'' (format_context rows)) = length rows))"
proof (intro conjI impI)
  show "format_context [] = ''Nenhuma venda registrada no per'' @ [CHR 0xED] @ ''odo solicitado.''"
    by (simp add: format_context_def)
next
  assume a: "rows \<noteq> [] \<and> (\<forall>r \<in> set rows. valid_datetime (sale_date (fst r)))"
  then show e: "format_context rows = str_join ''\<newline>'' (map row_text rows)"
    by (simp add: format_context_def map_format_line_row_text)
  show "\<forall>r \<in> set rows.
          two_fraction_digits (format_2f (total_amount (fst r))) \<and>
          (1000 \<le> year (sale_date (fst r)) \<longrightarrow>
             timestamp_text (sale_date (fst r)) = fixed_width_timestamp (sale_date (fst r)) \<and>
             length (timestamp_text (sale_date (fst r))) = 16)"
  proof
    fix r assume r: "r \<in> set rows"
    with a have "year (sale_date (fst r)) \<le> 9999" by (simp add: valid_datetime_def)
    then show "two_fraction_digits (format_2f (total_amount (fst r))) \<and>
          (1000 \<le> year (sale_date (fst r)) \<longrightarrow>
             timestamp_text (sale_date (fst r)) = fixed_width_timestamp (sale_date (fst r)) \<and>
             length (timestamp_text (sale_date (fst r))) = 16)"
      by (simp add: two_fraction_digits_format_2f timestamp_text_fixed_width
          length_fixed_width_timestamp)
  qed
  have l: "last (map row_text rows) = row_text (last rows)" using a by (simp add: last_map)
  have "last (format_context rows) = last (row_text (last rows))"
    unfolding e using a l last_row_text[of "last rows"] by (simp add: last_str_join)
  then show "last (format_context rows) \<noteq> CHR ''\<newline>''"
    using last_row_text[of "last rows"] is_digit_not_newline by auto
  have "Suc (newlines (format_context rows)) =
      length (map row_text rows) + sum_list (map newlines (map row_text rows))"
    unfolding e using a by (intro newlines_str_join) simp
  then have "Suc (newlines (format_context rows)) =
      length rows + sum_list (map (\<lambda>r. newlines (name (snd r))) rows)"
    by (simp only: sum_newlines_row_text length_map)
  moreover have "length (split_on CHR ''\<newline>'' (format_context rows)) =
      Suc (newlines (format_context rows))"
    by (simp only: length_split_on newlines_def)
  ultimately show c: "length (split_on CHR ''\<newline>'' (format_context rows)) =
        length rows + sum_list (map (\<lambda>r. newlines (name (snd r))) rows)"
    by simp
  assume n: "\<forall>r \<in> set rows. CHR ''\<newline>'' \<notin> set (name (snd r))"
  have "\<forall>l \<in> set (map row_text rows). CHR ''\<newline>'' \<notin> set l"
    using n newline_notin_row_text by force
  then show s: "split_on CHR ''\<newline>'' (format_context rows) = map row_text rows"
    unfolding e using a by (simp add: split_on_join)
  show "length (split_on CHR ''\<newline>'' (format_context rows)) = length rows"
    unfolding s by simp
qed

theorem format_context_contract_witness:
  "format_context [(sale_widget, product_widget), (sale_gadget, product_gadget)] =
     ''- Widget: 3 unid. (R$30.00) em 15/01/2024 10:30\<newline>- Gadget: 1 unid. (R$12.50) em 09/01/2024 08:05'' \<and>
   split_on CHR ''\<newline>'' (format_context [(sale_widget, product_widget), (sale_gadget, product_gadget)]) =
     [''- Widget: 3 unid. (R$30.00) em 15/01/2024 10:30'',
      ''- Gadget: 1 unid. (R$12.50) em 09/01/2024 08:05''] \<and>
   length (timestamp_text (sale_date sale_widget)) = 16"
proof -
  let ?rows = "[(sale_widget, product_widget), (sale_gadget, product_gadget)]"
  have pre: "?rows \<noteq> [] \<and> (\<forall>r \<in> set ?rows. valid_datetime (sale_date (fst r)))"
    by (simp add: valid_datetime_def days_in_month_def is_leap_def sale_widget_def sale_gadget_def)
  have nl: "\<forall>r \<in> set ?rows. CHR ''\<newline>'' \<notin> set (name (snd r))"
    by (simp add: product_widget_def product_gadget_def)
  have y: "1000 \<le> year (sale_date sale_widget)" by (simp add: sale_widget_def)
  note c = format_context_contract[of ?rows, THEN conjunct2, THEN mp, OF pre]
  have "format_context ?rows = str_join ''\<newline>'' (map row_text ?rows)"
    by (rule c[THEN conjunct1])
  moreover have "split_on CHR ''\<newline>'' (format_context ?rows) = map row_text ?rows"
    using c[THEN conjunct2, THEN conjunct2, THEN conjunct2, THEN conjunct2] nl by blast
  moreover have "length (timestamp_text (sale_date sale_widget)) = 16"
    using c[THEN conjunct2, THEN conjunct1] y by (simp add: length_fixed_width_timestamp)
  moreover have "map row_text ?rows =
     [''- Widget: 3 unid. (R$30.00) em 15/01/2024 10:30'',
      ''- Gadget: 1 unid. (R$12.50) em 09/01/2024 08:05'']"
    by code_simp
  ultimately show ?thesis by simp
qed

subsection \<open>Rows and their view\<close>

lemma format_line_view:
  "row_view (s, p) = row_view (s', p') \<Longrightarrow> format_line s p = format_line s' p'"
  by (simp add: row_view_def format_line_def del: strftime.simps)

lemma map_format_line_view:
  "map row_view rows = map row_view rows' \<Longrightarrow>
   map (\<lambda>(sale, product). format_line sale product) rows =
   map (\<lambda>(sale, product). format_line sale product) rows'"
proof (induction rows arbitrary: rows')
  case Nil
  then show ?case by simp
next
  case (Cons r rows)
  then obtain r' rest where e: "rows' = r' # rest" by (cases rows') auto
  with Cons.prems have h: "row_view r = row_view r'" and t: "map row_view rows = map row_view rest"
    by simp_all
  obtain s p s' p' where r: "r = (s, p)" "r' = (s', p')" by (cases r, cases r') auto
  from h r have "format_line s p = format_line s' p'" by (intro format_line_view) simp
  with Cons.IH[OF t] e r show ?case by simp
qed

lemma format_line_nonempty: "format_line s p \<noteq> []"
  by (simp add: format_line_def)

lemma format_context_nonempty: "format_context rows \<noteq> []"
proof (cases "rows = []")
  case True
  then show ?thesis by (simp add: format_context_def)
next
  case False
  let ?ls = "map (\<lambda>(sale, product). format_line sale product) rows"
  have "last ?ls \<noteq> []" using False by (simp add: last_map format_line_nonempty split: prod.splits)
  moreover have "?ls \<noteq> []" using False by simp
  ultimately have "str_join ''\<newline>'' ?ls \<noteq> []" by (rule str_join_nonempty[rotated])
  with False show ?thesis by (simp add: format_context_def)
qed

lemma format_sales_context_same_lines:
  "rows \<noteq> [] \<Longrightarrow> format_sales_context rows = format_context rows"
  by (simp add: format_sales_context_def format_context_def context_lines_acc)

subsection \<open>The formatter is a function of the displayed fields\<close>

text \<open>
  Claim C7. \<open>format_context\<close> reads nothing but its argument, and of that only the
  product name, the quantity, the total amount and the sale date of each row: two
  sequences that agree on these fields give the same text, character for character
  (so does the same sequence formatted twice). It has no failing branch: every
  sequence of rows is given a text, and that text is never empty.
\<close>

theorem format_context_deterministic:
  "(map row_view rows = map row_view rows' \<longrightarrow> format_context rows = format_context rows') \<and>
   format_context rows \<noteq> []"
proof (intro conjI impI)
  assume v: "map row_view rows = map row_view rows'"
  then have "length rows = length rows'" by (metis length_map)
  then have "(rows = []) = (rows' = [])" by auto
  with map_format_line_view[OF v] show "format_context rows = format_context rows'"
    by (simp add: format_context_def)
next
  show "format_context rows \<noteq> []" by (rule format_context_nonempty)
qed

theorem format_context_deterministic_witness:
  "format_context [(sale_widget\<lparr>s_id := 50, payment_method := Some ''cash''\<rparr>, product_widget\<lparr>sku := ''W-9''\<rparr>)] =
   format_context [(sale_widget, product_widget)] \<and>
   format_context [(sale_widget, product_widget)] = ''- Widget: 3 unid. (R$30.00) em 15/01/2024 10:30''"
proof -
  have v: "map row_view [(sale_widget\<lparr>s_id := 50, payment_method := Some ''cash''\<rparr>, product_widget\<lparr>sku := ''W-9''\<rparr>)] =
           map row_view [(sale_widget, product_widget)]"
    by (simp add: row_view_def)
  from format_context_deterministic[of "[(sale_widget\<lparr>s_id := 50, payment_method := Some ''cash''\<rparr>, product_widget\<lparr>sku := ''W-9''\<rparr>)]" "[(sale_widget, product_widget)]"] v
  have "format_context [(sale_widget\<lparr>s_id := 50, payment_method := Some ''cash''\<rparr>, product_widget\<lparr>sku := ''W-9''\<rparr>)] =
        format_context [(sale_widget, product_widget)]" by blast
  moreover have "format_context [(sale_widget, product_widget)] = ''- Widget: 3 unid. (R$30.00) em 15/01/2024 10:30''"
    by code_simp
  ultimately show ?thesis by simp
qed

subsection \<open>The store and the window\<close>

lemma session_execute_available:
  "storage w = Available db \<Longrightarrow>
   session_execute w st = (Inr (st db), w\<lparr>statements_issued := statements_issued w + 1\<rparr>)"
  by (simp add: session_execute_def)

lemma session_execute_unavailable:
  "storage w = Unavailable x \<Longrightarrow>
   session_execute w st = (Inl x, w\<lparr>statements_issued := statements_issued w + 1\<rparr>)"
  by (simp add: session_execute_def)



lemma get_sales_data_available:
  "storage w = Available db \<Longrightarrow> window_start (clock w) days = Inr start_date \<Longrightarrow>
   get_sales_data w days =
     (Inr (recent_sales_statement start_date db), w\<lparr>statements_issued := statements_issued w + 1\<rparr>)"
  by (simp add: get_sales_data_def session_execute_available)


lemma get_sales_data_Inl:
  "get_sales_data w days = (Inl e, w') \<Longrightarrow>
   e = HTTPException 500 (''Erro ao acessar dados hist'' @ [CHR 0xF3] @ ''ricos de vendas'') \<and>
   prompts_sent w' = prompts_sent w \<and> provider w' = provider w"
  by (cases "storage w")
     (auto simp: get_sales_data_def session_execute_def split: sum.splits)

lemma get_sales_data_unavailable:
  "storage w = Unavailable x \<Longrightarrow>
   \<exists>w'. get_sales_data w days =
     (Inl (HTTPException 500 (''Erro ao acessar dados hist'' @ [CHR 0xF3] @ ''ricos de vendas'')), w')"
  by (auto simp: get_sales_data_def session_execute_def split: sum.splits)

lemmas calendar_defs = window_start_def timedelta_def datetime_sub_def ord2ymd_def ymd2ord_def
  days_before_year_def days_before_month_def days_in_month_def is_leap_def Let_def

lemma example_window: "window_start (clock example_world) 7 = Inr (example_now\<lparr>day := 8\<rparr>)"
  by (simp add: calendar_defs example_world_def example_now_def)

lemma example_recent_sales:
  "recent_sales_statement (example_now\<lparr>day := 8\<rparr>) example_db =
     [(sale_widget, product_widget), (sale_gadget, product_gadget)]"
  by (simp add: recent_sales_statement_def example_db_def example_now_def dt_le_def dt_key_def
      sale_widget_def sale_gadget_def sale_old_def sale_orphan_def product_widget_def product_gadget_def)




subsection \<open>The recent-sales fetch\<close>



text \<open>The older \<open>_get_recent_sales_data\<close> returns the same rows when it returns.\<close>

lemma get_recent_sales_data_same_rows:
  "get_recent_sales_data w days = (Inr rows, w') \<longleftrightarrow> get_sales_data w days = (Inr rows, w')"
  by (cases "storage w")
     (auto simp: get_recent_sales_data_def get_sales_data_def session_execute_def split: sum.splits)

lemma analysis_except_http: "analysis_except (HTTPException c d) = HTTPException c d"
  by simp

subsection \<open>A failed fetch inside \<open>analyze_sales\<close>\<close>

text \<open>
  Claim C1. When \<open>_get_sales_data\<close> fails inside \<open>analyze_sales\<close>, the error it
  raised, the \<open>HTTPException\<close> with status 500 that classifies a storage failure,
  leaves \<open>analyze_sales\<close> as it is: the very same exception, not the generic
  "insight generation failed" one and not a result. No prompt is sent to the
  text-generation provider. This is what happens whenever the store is out of reach.
\<close>

theorem analyze_sales_propagates_fetch_error:
  "(get_sales_data w days = (Inl e, w1) \<longrightarrow>
      analyze_sales self w question days = (Inl e, w1) \<and> prompts_sent w1 = prompts_sent w \<and>
      e = HTTPException 500 (''Erro ao acessar dados hist'' @ [CHR 0xF3] @ ''ricos de vendas'')) \<and>
   (storage w = Unavailable x \<longrightarrow>
      fst (analyze_sales self w question days) =
        Inl (HTTPException 500 (''Erro ao acessar dados hist'' @ [CHR 0xF3] @ ''ricos de vendas'')) \<and>
      prompts_sent (snd (analyze_sales self w question days)) = prompts_sent w)"
proof (intro conjI impI)
  assume g: "get_sales_data w days = (Inl e, w1)"
  from get_sales_data_Inl[OF g]
  have e: "e = HTTPException 500 (''Erro ao acessar dados hist'' @ [CHR 0xF3] @ ''ricos de vendas'')"
    and p: "prompts_sent w1 = prompts_sent w" by simp_all
  show "e = HTTPException 500 (''Erro ao acessar dados hist'' @ [CHR 0xF3] @ ''ricos de vendas'')" by (rule e)
  show "prompts_sent w1 = prompts_sent w" by (rule p)
  show "analyze_sales self w question days = (Inl e, w1)"
    using g e by (simp add: analyze_sales_def)
next
  assume u: "storage w = Unavailable x"
  from get_sales_data_unavailable[OF u, of days] obtain w' where
    g: "get_sales_data w days =
      (Inl (HTTPException 500 (''Erro ao acessar dados hist'' @ [CHR 0xF3] @ ''ricos de vendas'')), w')"
    by blast
  from get_sales_data_Inl[OF g] have p: "prompts_sent w' = prompts_sent w" by simp
  have a: "analyze_sales self w question days =
      (Inl (HTTPException 500 (''Erro ao acessar dados hist'' @ [CHR 0xF3] @ ''ricos de vendas'')), w')"
    using g by (simp add: analyze_sales_def)
  show "fst (analyze_sales self w question days) =
        Inl (HTTPException 500 (''Erro ao acessar dados hist'' @ [CHR 0xF3] @ ''ricos de vendas''))"
    using a by simp
  show "prompts_sent (snd (analyze_sales self w question days)) = prompts_sent w"
    using a p by simp
qed

theorem analyze_sales_propagates_fetch_error_witness:
  "fst (analyze_sales example_chain offline_world ''What sold best?'' 7) =
     Inl (HTTPException 500 (''Erro ao acessar dados hist'' @ [CHR 0xF3] @ ''ricos de vendas'')) \<and>
   prompts_sent (snd (analyze_sales example_chain offline_world ''What sold best?'' 7)) = []"
proof -
  have u: "storage offline_world = Unavailable (StorageError ''connection refused'')"
    by (simp add: offline_world_def)
  have p: "prompts_sent offline_world = []" by (simp add: offline_world_def example_world_def)
  from analyze_sales_propagates_fetch_error[of offline_world 7 _ _ example_chain "''What sold best?''"
      "StorageError ''connection refused''"] u p
  show ?thesis by simp
qed

text \<open>The older analyzer answers the same failure with an apology, as if it had succeeded.\<close>

lemma analyze_sales_question_apologises:
  "storage w = Unavailable x \<Longrightarrow>
   fst (analyze_sales_question self w question) =
     Inr (''Desculpe, ocorreu um erro ao processar sua solicita'' @ [CHR 0xE7, CHR 0xE3] @ ''o.'') \<and>
   prompts_sent (snd (analyze_sales_question self w question)) = prompts_sent w"
  by (auto simp: analyze_sales_question_def get_recent_sales_data_def session_execute_def
      split: sum.splits)

subsection \<open>The prompt and the trimmed answer\<close>

lemma analysis_template_format:
  "py_format None analysis_template [(''question'', q), (''context'', c)] =
   Inr (prompt_head @ q @ prompt_middle @ c @ prompt_tail)"
  by (simp add: analysis_template_def prompt_head_def prompt_middle_def prompt_tail_def)

lemma chain_arun_analysis:
  "chain_arun (create_analysis_chain l) w q c =
     (provider w (prompt_head @ q @ prompt_middle @ c @ prompt_tail),
      w\<lparr>prompts_sent := prompts_sent w @ [prompt_head @ q @ prompt_middle @ c @ prompt_tail]\<rparr>)"
  by (simp add: chain_arun_def create_analysis_chain_def analysis_template_format)

lemma get_sales_data_keeps:
  "get_sales_data w days = (r, w1) \<Longrightarrow>
   prompts_sent w1 = prompts_sent w \<and> provider w1 = provider w \<and> environ w1 = environ w"
  by (cases "storage w")
     (auto simp: get_sales_data_def session_execute_def split: sum.splits)

lemma strip_parts:
  "\<exists>before after. s = before @ strip s @ after \<and>
     (\<forall>c \<in> set before. py_isspace c) \<and> (\<forall>c \<in> set after. py_isspace c)"
proof -
  define t where "t = dropWhile py_isspace s"
  have s: "s = takeWhile py_isspace s @ t" by (simp add: t_def)
  have "rev (takeWhile py_isspace (rev t) @ dropWhile py_isspace (rev t)) = rev (rev t)"
    by (simp only: takeWhile_dropWhile_id)
  then have "rev (dropWhile py_isspace (rev t)) @ rev (takeWhile py_isspace (rev t)) = t"
    by (simp only: rev_append rev_rev_ident)
  then have t: "t = strip s @ rev (takeWhile py_isspace (rev t))"
    by (simp only: strip_def t_def)
  have a: "\<forall>c \<in> set (takeWhile py_isspace s). py_isspace c" by (auto dest: set_takeWhileD)
  have b: "\<forall>c \<in> set (rev (takeWhile py_isspace (rev t))). py_isspace c" by (auto dest: set_takeWhileD)
  from s t have "s = takeWhile py_isspace s @ strip s @ rev (takeWhile py_isspace (rev t))" by simp
  with a b show ?thesis by blast
qed

lemma trimmed_strip: "trimmed (strip s)"
proof (cases "strip s = []")
  case True
  then show ?thesis by (simp add: trimmed_def)
next
  case False
  define t where "t = dropWhile py_isspace s"
  define u where "u = dropWhile py_isspace (rev t)"
  have st: "strip s = rev u" by (simp add: strip_def t_def u_def)
  with False have u: "u \<noteq> []" by simp
  then have l: "\<not> py_isspace (hd u)" unfolding u_def by (rule hd_dropWhile)
  have la: "last (strip s) = hd u" using u st by (simp add: last_rev)
  have "rev t = takeWhile py_isspace (rev t) @ u" by (simp add: u_def)
  then have "rev (rev t) = rev (takeWhile py_isspace (rev t) @ u)" by (rule arg_cong)
  then have tt: "t = rev u @ rev (takeWhile py_isspace (rev t))" by simp
  have tn: "t \<noteq> []" using tt u by auto
  then have "\<not> py_isspace (hd t)" unfolding t_def by (rule hd_dropWhile)
  moreover have "hd t = hd (rev u)" using tt u by (metis hd_append2 rev_is_Nil_conv)
  ultimately have h: "\<not> py_isspace (hd (strip s))" using st by simp
  from l la h show ?thesis by (simp add: trimmed_def)
qed

lemma example_fetch:
  "get_sales_data example_world 7 =
     (Inr [(sale_widget, product_widget), (sale_gadget, product_gadget)],
      example_world\<lparr>statements_issued := statements_issued example_world + 1\<rparr>)"
proof -
  have "storage example_world = Available example_db" by (simp add: example_world_def)
  from get_sales_data_available[OF this example_window] example_recent_sales
  show ?thesis by simp
qed

lemma example_context:
  "format_context [(sale_widget, product_widget), (sale_gadget, product_gadget)] =
     ''- Widget: 3 unid. (R$30.00) em 15/01/2024 10:30\<newline>- Gadget: 1 unid. (R$12.50) em 09/01/2024 08:05''"
  by code_simp

lemma example_strip: "strip ''  Widget sold best.\<newline>'' = ''Widget sold best.''"
  by (simp add: strip_def py_isspace_def)

subsection \<open>A successful analysis\<close>

text \<open>
  Claim C6. When \<open>analyze_sales\<close> returns a record, exactly one prompt has been sent to
  the provider: the template with the question and the formatted context of the
  fetched rows in the places of its two fields. The provider answered that prompt with
  a text; \<open>answer\<close> is that text without its leading and trailing whitespace (it
  differs from the text only by whitespace at the two ends and has none there itself),
  and \<open>context_used\<close> is the very context that stands in the prompt. Conversely, when
  the fetch returns rows and the provider answers the prompt, \<open>analyze_sales\<close>
  returns this record.
\<close>

theorem analyze_sales_success:
  "(analyze_sales (create_analysis_chain l) w question days = (Inr r, w') \<longrightarrow>
      (\<exists>sales_data response.
         fst (get_sales_data w days) = Inr sales_data \<and>
         context_used r = format_context sales_data \<and>
         prompts_sent w' =
           prompts_sent w @ [prompt_head @ question @ prompt_middle @ context_used r @ prompt_tail] \<and>
         provider w (prompt_head @ question @ prompt_middle @ context_used r @ prompt_tail) =
           Inr response \<and>
         answer r = strip response \<and> trimmed (answer r) \<and>
         (\<exists>before after. response = before @ answer r @ after \<and>
            (\<forall>c \<in> set before. py_isspace c) \<and> (\<forall>c \<in> set after. py_isspace c)))) \<and>
   (fst (get_sales_data w days) = Inr sales_data \<and>
    provider w (prompt_head @ question @ prompt_middle @ format_context sales_data @ prompt_tail) =
      Inr response \<longrightarrow>
      fst (analyze_sales (create_analysis_chain l) w question days) =
        Inr \<lparr>answer = strip response, context_used = format_context sales_data\<rparr>)"
proof (intro conjI impI)
  assume a: "analyze_sales (create_analysis_chain l) w question days = (Inr r, w')"
  obtain g w1 where g: "get_sales_data w days = (g, w1)" by (cases "get_sales_data w days") auto
  from a g obtain sales_data where sd: "g = Inr sales_data"
    by (cases g) (auto simp: analyze_sales_def)
  let ?c = "format_context sales_data"
  let ?p = "prompt_head @ question @ prompt_middle @ ?c @ prompt_tail"
  from get_sales_data_keeps[OF g] have k: "prompts_sent w1 = prompts_sent w" "provider w1 = provider w"
    by simp_all
  from a g sd obtain response where
    pr: "provider w1 ?p = Inr response" and
    r: "r = \<lparr>answer = strip response, context_used = ?c\<rparr>" and
    w': "w' = w1\<lparr>prompts_sent := prompts_sent w1 @ [?p]\<rparr>"
    by (cases "provider w1 ?p") (auto simp: analyze_sales_def chain_arun_analysis Let_def)
  have "fst (get_sales_data w days) = Inr sales_data" using g sd by simp
  moreover have "context_used r = ?c" using r by simp
  moreover have "prompts_sent w' =
      prompts_sent w @ [prompt_head @ question @ prompt_middle @ context_used r @ prompt_tail]"
    using w' k r by simp
  moreover have "provider w (prompt_head @ question @ prompt_middle @ context_used r @ prompt_tail) =
      Inr response" using pr k r by simp
  moreover have "answer r = strip response" using r by simp
  moreover have "trimmed (answer r)" using r trimmed_strip by simp
  moreover have "\<exists>before after. response = before @ answer r @ after \<and>
            (\<forall>c \<in> set before. py_isspace c) \<and> (\<forall>c \<in> set after. py_isspace c)"
    using strip_parts[of response] r by simp
  ultimately show "\<exists>sales_data response.
         fst (get_sales_data w days) = Inr sales_data \<and>
         context_used r = format_context sales_data \<and>
         prompts_sent w' =
           prompts_sent w @ [prompt_head @ question @ prompt_middle @ context_used r @ prompt_tail] \<and>
         provider w (prompt_head @ question @ prompt_middle @ context_used r @ prompt_tail) =
           Inr response \<and>
         answer r = strip response \<and> trimmed (answer r) \<and>
         (\<exists>before after. response = before @ answer r @ after \<and>
            (\<forall>c \<in> set before. py_isspace c) \<and> (\<forall>c \<in> set after. py_isspace c))"
    by blast
next
  assume h: "fst (get_sales_data w days) = Inr sales_data \<and>
    provider w (prompt_head @ question @ prompt_middle @ format_context sales_data @ prompt_tail) =
      Inr response"
  obtain w1 where g: "get_sales_data w days = (Inr sales_data, w1)"
    using h by (cases "get_sales_data w days") auto
  from get_sales_data_keeps[OF g] have "provider w1 = provider w" by simp
  with h g show "fst (analyze_sales (create_analysis_chain l) w question days) =
        Inr \<lparr>answer = strip response, context_used = format_context sales_data\<rparr>"
    by (simp add: analyze_sales_def chain_arun_analysis Let_def)
qed

theorem analyze_sales_success_witness:
  "fst (analyze_sales example_chain example_world ''What sold best?'' 7) =
     Inr \<lparr>answer = ''Widget sold best.'',
          context_used = ''- Widget: 3 unid. (R$30.00) em 15/01/2024 10:30\<newline>- Gadget: 1 unid. (R$12.50) em 09/01/2024 08:05''\<rparr> \<and>
   prompts_sent (snd (analyze_sales example_chain example_world ''What sold best?'' 7)) =
     [prompt_head @ ''What sold best?'' @ prompt_middle @
      ''- Widget: 3 unid. (R$30.00) em 15/01/2024 10:30\<newline>- Gadget: 1 unid. (R$12.50) em 09/01/2024 08:05'' @
      prompt_tail]"
proof -
  let ?l = "\<lparr>temperature = 0, model_name = ''gpt-3.5-turbo'', openai_api_key = Some ''sk-test''\<rparr>"
  let ?rows = "[(sale_widget, product_widget), (sale_gadget, product_gadget)]"
  let ?q = "''What sold best?''"
  have c: "example_chain = create_analysis_chain ?l" by (simp add: example_chain_def)
  have f: "fst (get_sales_data example_world 7) = Inr ?rows" by (simp add: example_fetch)
  have p: "provider example_world (prompt_head @ ?q @ prompt_middle @ format_context ?rows @ prompt_tail) =
      Inr ''  Widget sold best.\<newline>''"
    by (simp add: example_world_def example_provider_def)
  from analyze_sales_success[of ?l example_world ?q 7 _ _ ?rows "''  Widget sold best.\<newline>''"] f p
  have r: "fst (analyze_sales (create_analysis_chain ?l) example_world ?q 7) =
      Inr \<lparr>answer = strip ''  Widget sold best.\<newline>'', context_used = format_context ?rows\<rparr>"
    by blast
  then obtain w' where a: "analyze_sales (create_analysis_chain ?l) example_world ?q 7 =
      (Inr \<lparr>answer = strip ''  Widget sold best.\<newline>'', context_used = format_context ?rows\<rparr>, w')"
    by (cases "analyze_sales (create_analysis_chain ?l) example_world ?q 7") auto
  from analyze_sales_success[of ?l example_world ?q 7
      "\<lparr>answer = strip ''  Widget sold best.\<newline>'', context_used = format_context ?rows\<rparr>" w'] a
  have "prompts_sent w' = prompts_sent example_world @
      [prompt_head @ ?q @ prompt_middle @ format_context ?rows @ prompt_tail]"
    by auto
  then have s: "prompts_sent w' = [prompt_head @ ?q @ prompt_middle @ format_context ?rows @ prompt_tail]"
    by (simp add: example_world_def)
  from a s show ?thesis unfolding c example_context example_strip by simp
qed

subsection \<open>The request path and the environment\<close>

lemma get_sales_data_environ:
  "get_sales_data (w\<lparr>environ := env\<rparr>) days =
     (fst (get_sales_data w days), (snd (get_sales_data w days))\<lparr>environ := env\<rparr>)"
  by (cases "storage w")
     (auto simp: get_sales_data_def session_execute_def split: sum.splits)

lemma chain_arun_environ:
  "chain_arun c (w\<lparr>environ := env\<rparr>) q ctx =
     (fst (chain_arun c w q ctx), (snd (chain_arun c w q ctx))\<lparr>environ := env\<rparr>)"
  by (auto simp: chain_arun_def split: sum.splits)

lemma analyze_sales_environ:
  "fst (analyze_sales self (w\<lparr>environ := env\<rparr>) question days) =
   fst (analyze_sales self w question days)"
proof -
  obtain g w1 where g: "get_sales_data w days = (g, w1)" by (cases "get_sales_data w days") auto
  then have g': "get_sales_data (w\<lparr>environ := env\<rparr>) days = (g, w1\<lparr>environ := env\<rparr>)"
    by (simp add: get_sales_data_environ)
  show ?thesis
  proof (cases g)
    case (Inl e)
    with g g' show ?thesis by (simp add: analyze_sales_def)
  next
    case (Inr rows)
    obtain r w2 where c: "chain_arun self w1 question (format_context rows) = (r, w2)"
      by (cases "chain_arun self w1 question (format_context rows)") auto
    then have c': "chain_arun self (w1\<lparr>environ := env\<rparr>) question (format_context rows) =
        (r, w2\<lparr>environ := env\<rparr>)"
      by (simp add: chain_arun_environ)
    from g g' Inr c c' show ?thesis by (cases r) (simp_all add: analyze_sales_def Let_def)
  qed
qed

subsection \<open>The credential is checked by the constructor\<close>

text \<open>
  Claim C5. Constructing the analyzer while \<open>OPENAI_API_KEY\<close> is absent from the
  environment (or empty) raises the configuration error \<open>RuntimeError("OpenAI API key
  not configured")\<close> and yields no analyzer, so no request can be served by one; with a
  key present the constructor yields an analyzer holding that key. The check is not
  made per request: \<open>analyze_sales\<close> never reads the environment, its result is the
  same whatever the environment holds when the request runs.
\<close>

theorem SalesAnalyzer_requires_credential:
  "(getenv w ''OPENAI_API_KEY'' = None \<or> getenv w ''OPENAI_API_KEY'' = Some [] \<longrightarrow>
      SalesAnalyzer w = Inl (RuntimeError ''OpenAI API key not configured'')) \<and>
   (getenv w ''OPENAI_API_KEY'' = Some key \<and> key \<noteq> [] \<longrightarrow>
      (\<exists>self. SalesAnalyzer w = Inr self \<and> openai_api_key (chain_llm self) = Some key)) \<and>
   fst (analyze_sales self (w\<lparr>environ := env\<rparr>) question days) =
     fst (analyze_sales self w question days)"
proof (intro conjI impI)
  assume "getenv w ''OPENAI_API_KEY'' = None \<or> getenv w ''OPENAI_API_KEY'' = Some []"
  then show "SalesAnalyzer w = Inl (RuntimeError ''OpenAI API key not configured'')"
    by (auto simp: SalesAnalyzer_def initialize_llm_def)
next
  assume "getenv w ''OPENAI_API_KEY'' = Some key \<and> key \<noteq> []"
  then show "\<exists>self. SalesAnalyzer w = Inr self \<and> openai_api_key (chain_llm self) = Some key"
    by (simp add: SalesAnalyzer_def initialize_llm_def create_analysis_chain_def)
next
  show "fst (analyze_sales self (w\<lparr>environ := env\<rparr>) question days) =
     fst (analyze_sales self w question days)"
    by (rule analyze_sales_environ)
qed

theorem SalesAnalyzer_requires_credential_witness:
  "SalesAnalyzer (example_world\<lparr>environ := []\<rparr>) = Inl (RuntimeError ''OpenAI API key not configured'') \<and>
   SalesAnalyzer (example_world\<lparr>environ := [(''OPENAI_API_KEY'', '''')]\<rparr>) =
     Inl (RuntimeError ''OpenAI API key not configured'') \<and>
   SalesAnalyzer example_world = Inr example_chain"
proof -
  have a: "getenv (example_world\<lparr>environ := []\<rparr>) ''OPENAI_API_KEY'' = None"
    by (simp add: getenv_def)
  have b: "getenv (example_world\<lparr>environ := [(''OPENAI_API_KEY'', '''')]\<rparr>) ''OPENAI_API_KEY'' = Some []"
    by (simp add: getenv_def)
  have c: "getenv example_world ''OPENAI_API_KEY'' = Some ''sk-test'' \<and> ''sk-test'' \<noteq> []"
    by (simp add: getenv_def example_world_def)
  from SalesAnalyzer_requires_credential[of "example_world\<lparr>environ := []\<rparr>"] a
  have 1: "SalesAnalyzer (example_world\<lparr>environ := []\<rparr>) =
      Inl (RuntimeError ''OpenAI API key not configured'')" by blast
  from SalesAnalyzer_requires_credential[of "example_world\<lparr>environ := [(''OPENAI_API_KEY'', '''')]\<rparr>"] b
  have 2: "SalesAnalyzer (example_world\<lparr>environ := [(''OPENAI_API_KEY'', '''')]\<rparr>) =
      Inl (RuntimeError ''OpenAI API key not configured'')" by blast
  from SalesAnalyzer_requires_credential[of example_world "''sk-test''"] c
  obtain self where s: "SalesAnalyzer example_world = Inr self" by blast
  have "SalesAnalyzer example_world = Inr example_chain"
    using c by (simp add: SalesAnalyzer_def initialize_llm_def example_chain_def)
  with 1 2 show ?thesis by simp
qed

subsection \<open>The top-products statement\<close>



















subsection \<open>The top-products report\<close>



lemma call_with_two_arguments:
  "call_analyze_sales_question self w [PyStr question, PyInt days] =
     (Inl (TypeError ''SalesAnalyzer.analyze_sales_question() takes 2 positional arguments but 3 were given''), w)"
  by (simp add: call_analyze_sales_question_def str_int_def digits_nat.simps digit_char_def)

lemma call_with_one_argument:
  "call_analyze_sales_question self w [PyStr question] = analyze_sales_question self w question"
  by (simp add: call_analyze_sales_question_def)

subsection \<open>The question-answering route\<close>

text \<open>
  Claim C9. The handler \<open>sales_insights\<close> of app/main.py calls
  \<open>analyze_sales_question(question, days)\<close>, two arguments to a method that takes the
  question only. For every question and every day count that call raises
  \<open>TypeError\<close> before the method body runs, and the handler answers with the generic
  \<open>HTTPException\<close> of status 500, whatever the world is (also when the constructor
  of the analyzer has failed before the call). It never returns an insight, and it
  leaves the world as it was: no statement reaches the store, no prompt the provider.
\<close>

theorem sales_insights_never_answers:
  "sales_insights w question days =
     (Inl (HTTPException 500 ''Error processing your question''), w) \<and>
   call_analyze_sales_question self w [PyStr question, PyInt days] =
     (Inl (TypeError ''SalesAnalyzer.analyze_sales_question() takes 2 positional arguments but 3 were given''), w)"
proof
  show "sales_insights w question days =
     (Inl (HTTPException 500 ''Error processing your question''), w)"
    by (cases "LangchainSalesAnalyzer w") (simp_all add: sales_insights_def call_with_two_arguments)
  show "call_analyze_sales_question self w [PyStr question, PyInt days] =
     (Inl (TypeError ''SalesAnalyzer.analyze_sales_question() takes 2 positional arguments but 3 were given''), w)"
    by (rule call_with_two_arguments)
qed

theorem sales_insights_never_answers_witness:
  "sales_insights example_world ''What sold best?'' 7 =
     (Inl (HTTPException 500 ''Error processing your question''), example_world)"
  using sales_insights_never_answers[of example_world "''What sold best?''" 7] by simp

lemma async_session_unbound: "map_of main_globals ''async_session'' = None"
  by (simp add: main_globals_def)

subsection \<open>The session dependency of app/main.py\<close>

text \<open>
  Claim C10. \<open>get_db\<close> of app/main.py reads the name \<open>async_session\<close>, which the
  module never binds (it binds the session factory as \<open>SessionLocal\<close>), so it raises
  \<open>NameError\<close> on every call. The route \<open>/top-products\<close>, which depends on it, ends
  with that error for every request without issuing its statement. The \<open>get_db\<close> of
  app/database.py, which reads \<open>SessionLocal\<close>, does open a session.
\<close>

theorem main_get_db_raises_name_error:
  "main_get_db = Inl (NameError (''name '' @ [CHR 0x27] @ ''async_session'' @ [CHR 0x27] @ '' is not defined'')) \<and>
   top_products_route w days limit =
     (Inl (NameError (''name '' @ [CHR 0x27] @ ''async_session'' @ [CHR 0x27] @ '' is not defined'')), w) \<and>
   statements_issued (snd (top_products_route w days limit)) = statements_issued w \<and>
   map_of main_globals ''SessionLocal'' = Some SessionFactory \<and>
   database_get_db = Inr AsyncSession"
proof -
  have g: "main_get_db = Inl (NameError (''name '' @ [CHR 0x27] @ ''async_session'' @ [CHR 0x27] @ '' is not defined''))"
    by (simp add: main_get_db_def load_global_def async_session_unbound)
  have r: "top_products_route w days limit =
     (Inl (NameError (''name '' @ [CHR 0x27] @ ''async_session'' @ [CHR 0x27] @ '' is not defined'')), w)"
    unfolding top_products_route_def by (subst g) simp
  have s: "map_of main_globals ''SessionLocal'' = Some SessionFactory"
    by (simp add: main_globals_def)
  have d: "database_get_db = Inr AsyncSession"
    by (simp add: database_get_db_def load_global_def database_globals_def)
  from g r s d show ?thesis by simp
qed

theorem main_get_db_raises_name_error_witness:
  "statements_issued (snd (top_products_route example_world 30 5)) = 0 \<and>
   fst (top_products_route example_world 30 5) =
     Inl (NameError (''name '' @ [CHR 0x27] @ ''async_session'' @ [CHR 0x27] @ '' is not defined''))"
  using main_get_db_raises_name_error[of example_world 30 5] by (simp add: example_world_def)

subsection \<open>The validators\<close>

text \<open>
  Claim C8, at two inputs the validators accept. A price of 0.004 is positive, passes
  the test \<open>price <= 0\<close> and is stored rounded, as 0.00: a stored price that is not
  positive. The SKU \<open>AB-1\<close> followed by a newline passes \<open>re.match\<close>, because \<open>$\<close>
  also matches just before a final newline: a stored SKU with a character outside
  \<open>[A-Z0-9-]\<close>.
\<close>

theorem validators_accept_invalid_values:
  "validate_prices (1 / 250) = Inr 0 \<and>
   validate_sku ''AB-1\<newline>'' = Inr ''AB-1\<newline>''"
  by code_simp

text \<open>What the validators do guarantee.\<close>

lemma validate_quantity_positive: "validate_quantity q = Inr q' \<Longrightarrow> q' = q \<and> 0 < q"
  by (auto simp: validate_quantity_def split: if_splits)

lemma validate_quantity_rejects: "q \<le> 0 \<Longrightarrow> validate_quantity q = Inl (ValueError ''Quantity must be positive'')"
  by (simp add: validate_quantity_def)

lemma validate_prices_rejects: "x \<le> 0 \<Longrightarrow> validate_prices x = Inl (ValueError ''Price must be positive'')"
  by (simp add: validate_prices_def)

lemma round_half_even_nonneg: "0 \<le> x \<Longrightarrow> 0 \<le> round_half_even x"
  by (auto simp: round_half_even_def Let_def)

lemma validate_prices_accepts:
  "validate_prices x = Inr y \<Longrightarrow> 0 < x \<and> 0 \<le> y \<and> (\<exists>cents. y = of_int cents / 100)"
proof -
  assume a: "validate_prices x = Inr y"
  then have x: "0 < x" and y: "y = of_int (round_half_even (x * 100)) / 100"
    by (auto simp: validate_prices_def round2_def split: if_splits)
  from x have "0 \<le> round_half_even (x * 100)" by (intro round_half_even_nonneg) simp
  then have "0 \<le> y" unfolding y by simp
  with x y show ?thesis by blast
qed

lemma validate_sku_accepts:
  "validate_sku s = Inr s' \<Longrightarrow>
   s' = s \<and> (\<exists>run. run \<noteq> [] \<and> (\<forall>c \<in> set run. sku_char c) \<and> (s = run \<or> s = run @ ''\<newline>''))"
proof -
  assume a: "validate_sku s = Inr s'"
  then have m: "re_match_sku s" and e: "s' = s" by (auto simp: validate_sku_def split: if_splits)
  let ?run = "takeWhile sku_char s"
  have s: "s = ?run @ dropWhile sku_char s" by simp
  from m have "?run \<noteq> []" "dropWhile sku_char s = [] \<or> dropWhile sku_char s = ''\<newline>''"
    by (simp_all add: re_match_sku_def Let_def)
  moreover have "\<forall>c \<in> set ?run. sku_char c" by (auto dest: set_takeWhileD)
  ultimately show ?thesis using e s by (metis append_Nil2)
qed

end
